theory Spec2Isabelle
  imports Main
begin

section \<open>The plugin manager of the server core\<close>

text \<open>
  A shallow embedding of \<^verbatim>\<open>packages/core/server/src/plugin-manager/plugin-manager.ts\<close>.
  The manager owns an insertion-ordered registry of plugin instances
  (\<^verbatim>\<open>plugins = new Map<string | typeof Plugin, Plugin>()\<close>) and talks to a record
  store (the repository of the \<^verbatim>\<open>applicationPlugins\<close> collection). Every method is
  a function from the manager's state to a result and the state it leaves behind: a
  thrown error is the left summand of the result, and the state returned with it
  holds every effect made before the throw, since nothing in the source rolls back.
\<close>

subsection \<open>Data\<close>

text \<open>\<^verbatim>\<open>types.ts\<close>, interface PluginData: every field is optional
  (\<open>None\<close> is \<^verbatim>\<open>undefined\<close>). The field \<^verbatim>\<open>options\<close> is only ever written as
  \<^verbatim>\<open>{}\<close> and never read, so it is left out.\<close>

record PluginData =
  pd_name :: "string option"
  pd_version :: "string option"
  pd_appName :: "string option"
  pd_registry :: "string option"
  pd_clientUrl :: "string option"
  pd_zipUrl :: "string option"
  pd_enabled :: "bool option"
  pd_isOfficial :: "bool option"
  pd_installed :: "bool option"
  pd_builtIn :: "bool option"

definition noData :: PluginData where
  "noData = \<lparr>pd_name = None, pd_version = None, pd_appName = None, pd_registry = None,
     pd_clientUrl = None, pd_zipUrl = None, pd_enabled = None, pd_isOfficial = None,
     pd_installed = None, pd_builtIn = None\<rparr>"

text \<open>Modelled from the spec: the class \<^verbatim>\<open>Plugin\<close> (\<^verbatim>\<open>../plugin\<close>) is not among
  the sources. The spec describes an instance as "a constructed object bound to one
  PluginRecord's name, enabled, builtIn fields at construction time". An instance is
  the class it was constructed from and the three options handed to the constructor
  by \<^verbatim>\<open>setPluginInstance\<close>; no method of the manager assigns to them afterwards.\<close>

record Plugin =
  pl_class :: nat
  pl_name :: "string option"
  pl_enabled :: "bool option"
  pl_builtIn :: "bool option"

text \<open>The hooks of the plugin capability set that the manager calls.\<close>

datatype hook = AfterAdd | BeforeLoad | Install | AfterEnable | AfterDisable | Remove | Load

text \<open>The application events the manager emits with \<^verbatim>\<open>app.emitAsync\<close>, with the
  argument that identifies the plugin (the \<^verbatim>\<open>options\<close> argument of the load and
  install events is opaque and left out).\<close>

datatype app_event =
    AfterEnablePlugin string
  | AfterDisablePlugin string
  | BeforeLoadPlugin Plugin
  | AfterLoadPlugin Plugin

text \<open>A key of the registry: a plugin name, or the class itself for a plugin that
  was registered without a name.\<close>

datatype key = Name string | Class nat

text \<open>What \<^verbatim>\<open>require(name)\<close> yields: a class, or something that is not a function.\<close>

datatype export = ClassRef nat | NotAFunction

text \<open>Filters and values of the repository calls made by the manager. Every filter
  of the source fixes \<^verbatim>\<open>name\<close> and \<^verbatim>\<open>appName\<close>; those of \<^verbatim>\<open>disable\<close> and
  \<^verbatim>\<open>remove\<close> add \<^verbatim>\<open>builtIn: false\<close>.\<close>

record rfilter =
  f_name :: string
  f_appName :: string
  f_builtIn :: "bool option"

datatype field_update =
    SetEnabled bool
  | SetInstalled bool
  | SetVersion "string option"
  | SetClientUrl string

text \<open>The errors a method can throw. \<open>LocalPackageMissing\<close> is the error of
  \<^verbatim>\<open>addByCli\<close> for a package directory that does not exist; \<open>ToolFailure\<close> stands for
  a failure of the plugin generator, of \<^verbatim>\<open>yarn install\<close> or of \<^verbatim>\<open>addByLocalPackage\<close>.\<close>

datatype error =
    DuplicatePlugin string
  | PluginNotFound string
  | RequiredPluginNotEnabled string string
  | BuiltInProtected string
  | InvalidPluginExport "string option"
  | ModuleNotFound "string option"
  | TypeError
  | HookFailure hook Plugin
  | EventFailure app_event
  | PackageResolutionFailure
  | UniqueViolation
  | LocalPackageMissing string
  | ToolFailure string

text \<open>The target of a command: \<^verbatim>\<open>plugins: string | string[]\<close>.\<close>

datatype names = One string | Many "string list"

text \<open>The observable actions of the manager, in the order they are made. The last six
  are those of the command line dispatch: \<^verbatim>\<open>console.log(method, plugins)\<close>, the
  messages of \<^verbatim>\<open>createByCli\<close> and \<^verbatim>\<open>addByCli\<close>, \<^verbatim>\<open>console.error(error.message)\<close>,
  the run of the plugin generator, \<^verbatim>\<open>yarn install\<close> and \<^verbatim>\<open>addByLocalPackage\<close>.\<close>

datatype action =
    DbCreate PluginData
  | DbUpdate rfilter "field_update list"
  | DbDestroy rfilter
  | NpmInstall string "string option" "string option"
  | Construct key Plugin
  | HookCall hook Plugin
  | Emit app_event
  | RemovePackage string
  | LogCommand string names
  | LogText string
  | ConsoleError error
  | GeneratePlugin string
  | YarnInstall
  | AddLocalPackage string

text \<open>The state of one manager: the registry in insertion order, the rows of the
  record store, whether the table exists in the database, and the actions made so far.\<close>

record pm_state =
  plugins :: "(key \<times> Plugin) list"
  store :: "PluginData list"
  tableExists :: bool
  trace :: "action list"

text \<open>The collaborators that are not part of the manager: the hosting application,
  the module loader, the plugin classes and the helpers of \<^verbatim>\<open>./utils\<close>. They are
  parameters of every method.
  \<^item> \<open>appName\<close>: \<^verbatim>\<open>this.app.name\<close>;
  \<^item> \<open>modules\<close>: what \<^verbatim>\<open>require\<close> finds under a package name (\<open>None\<close>: it throws);
  \<^item> \<open>requiredPluginsOf\<close>: the result of \<^verbatim>\<open>instance.requiredPlugins()\<close>;
  \<^item> \<open>hookThrows\<close>, \<open>emitThrows\<close>: whether a hook call or an event emission fails;
  \<^item> \<open>packageJson\<close>: \<^verbatim>\<open>getPackageJsonByLocalPath\<close> (\<open>None\<close>: it throws);
  \<^item> \<open>npm\<close>: \<^verbatim>\<open>addOrUpdatePluginByNpm({name, registry, version})\<close>, the version it
    installed (\<open>None\<close>: it throws);
  \<^item> \<open>newVersion\<close>: \<^verbatim>\<open>getNewVersion\<close>, the newer version or a falsy value
    (\<open>None\<close>: it throws); \<open>clientStaticUrl\<close>: \<^verbatim>\<open>getClientStaticUrl\<close>;
  \<^item> \<open>checkPackageThrows\<close>: whether \<^verbatim>\<open>checkPluginPackage\<close> fails;
  \<^item> \<open>extraPluginInfo\<close>: \<^verbatim>\<open>getExtraPluginInfo\<close>, kept opaque (\<open>None\<close>: it throws);
  \<^item> \<open>removePackageThrows\<close>: whether \<^verbatim>\<open>removePluginPackage\<close> fails.\<close>

record host =
  appName :: string
  modules :: "string \<Rightarrow> export option"
  requiredPluginsOf :: "Plugin \<Rightarrow> string list"
  hookThrows :: "hook \<Rightarrow> Plugin \<Rightarrow> bool"
  emitThrows :: "app_event \<Rightarrow> bool"
  packageJson :: "string \<Rightarrow> (string \<times> string) option"
  npm :: "string \<Rightarrow> string option \<Rightarrow> string option \<Rightarrow> string option"
  newVersion :: "PluginData \<Rightarrow> string option option"
  clientStaticUrl :: "string \<Rightarrow> string"
  checkPackageThrows :: "PluginData \<Rightarrow> bool"
  extraPluginInfo :: "PluginData \<Rightarrow> string option"
  removePackageThrows :: "string \<Rightarrow> bool"

subsection \<open>Sequencing\<close>

text \<open>A method is a function from the state to a result and a state. \<open>await m k\<close>
  runs \<open>m\<close> to completion and continues with \<open>k\<close> on its value; when \<open>m\<close> throws, the
  rest is skipped and the state reached so far is kept.\<close>

type_synonym 'a pm = "pm_state \<Rightarrow> (error + 'a) \<times> pm_state"

definition ret :: "'a \<Rightarrow> 'a pm" where
  "ret x = (\<lambda>s. (Inr x, s))"

definition throw :: "error \<Rightarrow> 'a pm" where
  "throw e = (\<lambda>s. (Inl e, s))"

definition await :: "'a pm \<Rightarrow> ('a \<Rightarrow> 'b pm) \<Rightarrow> 'b pm" where
  "await m k = (\<lambda>s. case m s of (Inl e, s') \<Rightarrow> (Inl e, s') | (Inr x, s') \<Rightarrow> k x s')"

definition record_action :: "action \<Rightarrow> unit pm" where
  "record_action a = (\<lambda>s. (Inr (), s\<lparr>trace := trace s @ [a]\<rparr>))"

text \<open>JavaScript truthiness of an optional boolean and of an optional string.\<close>

definition truthy :: "bool option \<Rightarrow> bool" where
  "truthy b = (b = Some True)"

definition truthy_str :: "string option \<Rightarrow> bool" where
  "truthy_str v = (case v of None \<Rightarrow> False | Some x \<Rightarrow> x \<noteq> [])"

subsection \<open>The registry: an insertion-ordered Map\<close>

text \<open>\<^verbatim>\<open>Map.prototype.set\<close> replaces the value of a key that is present, which keeps
  its place in the iteration order, and appends a key that is absent.\<close>

fun map_set :: "(key \<times> Plugin) list \<Rightarrow> key \<Rightarrow> Plugin \<Rightarrow> (key \<times> Plugin) list" where
  "map_set [] k v = [(k, v)]"
| "map_set ((k', v') # kvs) k v =
     (if k' = k then (k, v) # kvs else (k', v') # map_set kvs k v)"

definition map_get :: "(key \<times> Plugin) list \<Rightarrow> key \<Rightarrow> Plugin option" where
  "map_get kvs k = map_of kvs k"

definition map_has :: "(key \<times> Plugin) list \<Rightarrow> key \<Rightarrow> bool" where
  "map_has kvs k = (map_of kvs k \<noteq> None)"

definition map_delete :: "(key \<times> Plugin) list \<Rightarrow> key \<Rightarrow> (key \<times> Plugin) list" where
  "map_delete kvs k = filter (\<lambda>kv. fst kv \<noteq> k) kvs"

subsection \<open>The record store\<close>

text \<open>Modelled from the spec: the repository (\<^verbatim>\<open>./plugin-manager-repository\<close>) is
  not among the sources. The spec gives its contract: \<^verbatim>\<open>list(appName, filter?)\<close>,
  \<^verbatim>\<open>findOne(filter)\<close> (a record or not-found), \<^verbatim>\<open>create(values)\<close>, which must reject a
  duplicate \<^verbatim>\<open>(name, appName)\<close>, \<^verbatim>\<open>update(filter, values)\<close> and \<^verbatim>\<open>destroy(filter)\<close>.
  A filter selects the rows whose fields equal the given values; \<^verbatim>\<open>update\<close> and
  \<^verbatim>\<open>destroy\<close> act on every selected row and on none when no row is selected. A
  failure of the database itself is outside this contract and is not modelled.\<close>

definition matches :: "rfilter \<Rightarrow> PluginData \<Rightarrow> bool" where
  "matches f r = (pd_name r = Some (f_name f) \<and> pd_appName r = Some (f_appName f) \<and>
     (case f_builtIn f of None \<Rightarrow> True | Some b \<Rightarrow> pd_builtIn r = Some b))"

fun apply_update :: "field_update \<Rightarrow> PluginData \<Rightarrow> PluginData" where
  "apply_update (SetEnabled b) r = r\<lparr>pd_enabled := Some b\<rparr>"
| "apply_update (SetInstalled b) r = r\<lparr>pd_installed := Some b\<rparr>"
| "apply_update (SetVersion v) r = r\<lparr>pd_version := v\<rparr>"
| "apply_update (SetClientUrl u) r = r\<lparr>pd_clientUrl := Some u\<rparr>"

definition apply_values :: "field_update list \<Rightarrow> PluginData \<Rightarrow> PluginData" where
  "apply_values vs r = fold apply_update vs r"

definition repo_list :: "pm_state \<Rightarrow> string \<Rightarrow> PluginData list" where
  "repo_list s app = filter (\<lambda>r. pd_appName r = Some app) (store s)"

definition repo_findOne :: "pm_state \<Rightarrow> rfilter \<Rightarrow> PluginData option" where
  "repo_findOne s f = find (matches f) (store s)"

definition repo_create :: "PluginData \<Rightarrow> PluginData pm" where
  "repo_create vals = (\<lambda>s.
     if \<exists>r \<in> set (store s). pd_name r = pd_name vals \<and> pd_appName r = pd_appName vals
     then (Inl UniqueViolation, s)
     else (Inr vals, s\<lparr>store := store s @ [vals], trace := trace s @ [DbCreate vals]\<rparr>))"

definition repo_update :: "rfilter \<Rightarrow> field_update list \<Rightarrow> unit pm" where
  "repo_update f vs = (\<lambda>s.
     (Inr (), s\<lparr>store := map (\<lambda>r. if matches f r then apply_values vs r else r) (store s),
                trace := trace s @ [DbUpdate f vs]\<rparr>))"

definition repo_destroy :: "rfilter \<Rightarrow> unit pm" where
  "repo_destroy f = (\<lambda>s.
     (Inr (), s\<lparr>store := filter (\<lambda>r. \<not> matches f r) (store s),
                trace := trace s @ [DbDestroy f]\<rparr>))"

subsection \<open>Hooks and events\<close>

text \<open>A hook call and an event emission are recorded when they are made; whether
  they fail is the host's.\<close>

definition callHook :: "host \<Rightarrow> hook \<Rightarrow> Plugin \<Rightarrow> unit pm" where
  "callHook H h p =
     await (record_action (HookCall h p)) (\<lambda>_.
       if hookThrows H h p then throw (HookFailure h p) else ret ())"

definition emitAsync :: "host \<Rightarrow> app_event \<Rightarrow> unit pm" where
  "emitAsync H ev =
     await (record_action (Emit ev)) (\<lambda>_.
       if emitThrows H ev then throw (EventFailure ev) else ret ())"

subsection \<open>Registering instances\<close>

text \<open>\<^verbatim>\<open>setPluginInstance(PluginClass, {name, enabled, builtIn})\<close>: the instance is
  stored under \<^verbatim>\<open>name || PluginClass\<close>, so under the class when the name is missing
  or the empty string.\<close>

definition instance_key :: "string option \<Rightarrow> nat \<Rightarrow> key" where
  "instance_key nm c = (if truthy_str nm then Name (the nm) else Class c)"

definition setPluginInstance :: "export \<Rightarrow> PluginData \<Rightarrow> Plugin pm" where
  "setPluginInstance PluginClass opts =
     (case PluginClass of
        NotAFunction \<Rightarrow> throw (InvalidPluginExport (pd_name opts))
      | ClassRef c \<Rightarrow>
          (let inst = \<lparr>pl_class = c, pl_name = pd_name opts, pl_enabled = pd_enabled opts,
                       pl_builtIn = pd_builtIn opts\<rparr>;
               k = instance_key (pd_name opts) c
           in (\<lambda>s. (Inr inst, s\<lparr>plugins := map_set (plugins s) k inst,
                                 trace := trace s @ [Construct k inst]\<rparr>))))"

text \<open>\<^verbatim>\<open>require(pluginData.name)\<close>: Node's \<^verbatim>\<open>require\<close> raises a TypeError on a
  missing or empty module name, and throws on a module it cannot find.\<close>

definition require :: "host \<Rightarrow> string option \<Rightarrow> export pm" where
  "require H nm =
     (if \<not> truthy_str nm then throw TypeError
      else case modules H (the nm) of
             None \<Rightarrow> throw (ModuleNotFound nm)
           | Some ex \<Rightarrow> ret ex)"

definition setDatabasePlugin :: "host \<Rightarrow> PluginData \<Rightarrow> Plugin pm" where
  "setDatabasePlugin H pluginData =
     await (require H (pd_name pluginData)) (\<lambda>PluginClass.
       setPluginInstance PluginClass pluginData)"

definition getPluginInstance :: "string \<Rightarrow> Plugin pm" where
  "getPluginInstance nm = (\<lambda>s.
     case map_get (plugins s) (Name nm) of
       None \<Rightarrow> (Inl (PluginNotFound nm), s)
     | Some pluginInstance \<Rightarrow> (Inr pluginInstance, s))"

subsection \<open>load and loadAll\<close>

definition load :: "host \<Rightarrow> Plugin \<Rightarrow> unit pm" where
  "load H pluginInstance =
     (if \<not> truthy (pl_enabled pluginInstance) then ret ()
      else
        await (emitAsync H (BeforeLoadPlugin pluginInstance)) (\<lambda>_.
        await (callHook H Load pluginInstance) (\<lambda>_.
        emitAsync H (AfterLoadPlugin pluginInstance))))"

text \<open>The loop of \<^verbatim>\<open>loadAll\<close> visits the values of the registry in insertion order
  and awaits each \<open>load\<close> before the next. No step of \<open>load\<close> changes the registry, so
  the values are those present when the loop starts.\<close>

fun loadEach :: "host \<Rightarrow> Plugin list \<Rightarrow> unit pm" where
  "loadEach H [] = ret ()"
| "loadEach H (pluginInstance # rest) =
     await (load H pluginInstance) (\<lambda>_. loadEach H rest)"

definition loadAll :: "host \<Rightarrow> unit pm" where
  "loadAll H = (\<lambda>s. loadEach H (map snd (plugins s)) s)"

subsection \<open>enable, disable, remove\<close>

text \<open>The loop over \<^verbatim>\<open>requiredPlugins\<close>: \<^verbatim>\<open>this.plugins.get(requiredPluginName)\<close> is
  \<^verbatim>\<open>undefined\<close> for a name that is not registered, and reading \<^verbatim>\<open>.enabled\<close> of it
  is a TypeError.\<close>

fun checkRequired :: "string \<Rightarrow> string list \<Rightarrow> unit pm" where
  "checkRequired nm [] = ret ()"
| "checkRequired nm (requiredPluginName # rest) = (\<lambda>s.
     case map_get (plugins s) (Name requiredPluginName) of
       None \<Rightarrow> (Inl TypeError, s)
     | Some requiredPlugin \<Rightarrow>
         if \<not> truthy (pl_enabled requiredPlugin)
         then (Inl (RequiredPluginNotEnabled nm requiredPluginName), s)
         else checkRequired nm rest s)"

definition enable :: "host \<Rightarrow> string \<Rightarrow> unit pm" where
  "enable H nm =
     await (getPluginInstance nm) (\<lambda>pluginInstance.
     await (checkRequired nm (requiredPluginsOf H pluginInstance)) (\<lambda>_.
     await (repo_update \<lparr>f_name = nm, f_appName = appName H, f_builtIn = None\<rparr>
              [SetEnabled True]) (\<lambda>_.
     await (callHook H Install pluginInstance) (\<lambda>_.
     await (callHook H AfterEnable pluginInstance) (\<lambda>_.
     await (emitAsync H (AfterEnablePlugin nm)) (\<lambda>_.
     load H pluginInstance))))))"

definition disable :: "host \<Rightarrow> string \<Rightarrow> unit pm" where
  "disable H nm =
     await (getPluginInstance nm) (\<lambda>pluginInstance.
     if truthy (pl_builtIn pluginInstance) then throw (BuiltInProtected nm)
     else
       await (repo_update \<lparr>f_name = nm, f_appName = appName H, f_builtIn = Some False\<rparr>
                [SetEnabled False]) (\<lambda>_.
       await (callHook H AfterDisable pluginInstance) (\<lambda>_.
       emitAsync H (AfterDisablePlugin nm))))"

definition removePluginPackage :: "host \<Rightarrow> string \<Rightarrow> unit pm" where
  "removePluginPackage H nm =
     await (record_action (RemovePackage nm)) (\<lambda>_.
       if removePackageThrows H nm then throw PackageResolutionFailure else ret ())"

definition remove_plugin :: "host \<Rightarrow> string \<Rightarrow> unit pm" where
  "remove_plugin H nm =
     await (getPluginInstance nm) (\<lambda>pluginInstance.
     if truthy (pl_builtIn pluginInstance) then throw (BuiltInProtected nm)
     else
       await (callHook H Remove pluginInstance) (\<lambda>_.
       await (repo_destroy \<lparr>f_name = nm, f_appName = appName H, f_builtIn = Some False\<rparr>) (\<lambda>_.
       await (\<lambda>s. (Inr (), s\<lparr>plugins := map_delete (plugins s) (Name nm)\<rparr>)) (\<lambda>_.
       removePluginPackage H nm))))"

subsection \<open>addByNpm, upgradeByNpm, addByLocalPath, list\<close>

text \<open>The argument of \<^verbatim>\<open>addByNpm\<close> (\<^verbatim>\<open>const { name, registry, builtIn, isOfficial } = data\<close>)
  and the second argument of \<^verbatim>\<open>addByLocalPath\<close>.\<close>

record npm_data =
  d_name :: string
  d_registry :: "string option"
  d_builtIn :: "bool option"
  d_isOfficial :: "bool option"

record local_data =
  l_zipUrl :: "string option"
  l_builtIn :: "bool option"
  l_isOfficial :: "bool option"

definition addOrUpdatePluginByNpm :: "host \<Rightarrow> string \<Rightarrow> string option \<Rightarrow> string option \<Rightarrow> string pm" where
  "addOrUpdatePluginByNpm H nm reg ver =
     await (record_action (NpmInstall nm reg ver)) (\<lambda>_.
       case npm H nm reg ver of
         None \<Rightarrow> throw PackageResolutionFailure
       | Some v \<Rightarrow> ret v)"

definition addByNpm :: "host \<Rightarrow> npm_data \<Rightarrow> PluginData pm" where
  "addByNpm H data = (\<lambda>s.
     if map_has (plugins s) (Name (d_name data))
     then (Inl (DuplicatePlugin (d_name data)), s)
     else
       (await (repo_create (noData\<lparr>pd_name := Some (d_name data),
                 pd_registry := d_registry data, pd_appName := Some (appName H),
                 pd_enabled := Some False, pd_isOfficial := d_isOfficial data,
                 pd_installed := Some False, pd_builtIn := d_builtIn data\<rparr>)) (\<lambda>res.
        await (addOrUpdatePluginByNpm H (d_name data) (d_registry data) None) (\<lambda>version.
        await (repo_update \<lparr>f_name = d_name data, f_appName = appName H, f_builtIn = None\<rparr>
                 [SetVersion (Some version), SetClientUrl (clientStaticUrl H (d_name data)),
                  SetInstalled True]) (\<lambda>_.
        await (setDatabasePlugin H (noData\<lparr>pd_name := Some (d_name data),
                 pd_enabled := Some False, pd_builtIn := d_builtIn data\<rparr>)) (\<lambda>instance.
        await (callHook H AfterAdd instance) (\<lambda>_.
        ret res)))))) s)"

definition getPluginData :: "host \<Rightarrow> string \<Rightarrow> PluginData pm" where
  "getPluginData H nm = (\<lambda>s.
     case repo_findOne s \<lparr>f_name = nm, f_appName = appName H, f_builtIn = None\<rparr> of
       None \<Rightarrow> (Inl (PluginNotFound nm), s)
     | Some pluginData \<Rightarrow> (Inr pluginData, s))"

definition getNewVersion :: "host \<Rightarrow> PluginData \<Rightarrow> string option pm" where
  "getNewVersion H pluginData =
     (case newVersion H pluginData of
        None \<Rightarrow> throw PackageResolutionFailure
      | Some latestVersion \<Rightarrow> ret latestVersion)"

definition upgradeByNpm :: "host \<Rightarrow> string \<Rightarrow> unit pm" where
  "upgradeByNpm H nm =
     await (getPluginData H nm) (\<lambda>pluginData.
     await (getNewVersion H pluginData) (\<lambda>latestVersion.
     await (if truthy_str latestVersion
            then await (addOrUpdatePluginByNpm H nm (pd_registry pluginData) latestVersion)
                   (\<lambda>_. ret ())
            else ret ()) (\<lambda>_.
     await (repo_update \<lparr>f_name = nm, f_appName = appName H, f_builtIn = None\<rparr>
              [SetVersion latestVersion]) (\<lambda>_.
     await (setDatabasePlugin H pluginData) (\<lambda>instance.
     await (callHook H AfterAdd instance) (\<lambda>_.
     if truthy (pd_enabled pluginData) then callHook H Load instance else ret ()))))))"

definition addByLocalPath :: "host \<Rightarrow> string \<Rightarrow> local_data \<Rightarrow> PluginData pm" where
  "addByLocalPath H localPath data =
     (let zipUrl = l_zipUrl data;
          builtIn = (case l_builtIn data of None \<Rightarrow> False | Some b \<Rightarrow> b);
          isOfficial = (case l_isOfficial data of None \<Rightarrow> False | Some b \<Rightarrow> b)
      in case packageJson H localPath of
           None \<Rightarrow> throw PackageResolutionFailure
         | Some (nm, version) \<Rightarrow> (\<lambda>s.
             if map_has (plugins s) (Name nm) then (Inl (DuplicatePlugin nm), s)
             else
               (await (repo_create (noData\<lparr>pd_name := Some nm, pd_appName := Some (appName H),
                         pd_zipUrl := zipUrl, pd_builtIn := Some builtIn,
                         pd_isOfficial := Some isOfficial,
                         pd_clientUrl := Some (clientStaticUrl H nm),
                         pd_version := Some version, pd_enabled := Some False,
                         pd_installed := Some True\<rparr>)) (\<lambda>res.
                await (setDatabasePlugin H (noData\<lparr>pd_name := Some nm,
                         pd_enabled := Some False, pd_builtIn := Some builtIn\<rparr>)) (\<lambda>instance.
                await (callHook H AfterAdd instance) (\<lambda>_.
                ret res)))) s))"

text \<open>\<^verbatim>\<open>list()\<close> spreads each record and then the extra information about its
  package; the extra information is kept beside the record. The calls of
  \<^verbatim>\<open>getExtraPluginInfo\<close> run under \<^verbatim>\<open>Promise.all\<close>, which rejects when one of them
  does; they change nothing in the manager.\<close>

definition list_plugins :: "host \<Rightarrow> (PluginData \<times> string) list pm" where
  "list_plugins H = (\<lambda>s.
     let pluginData = repo_list s (appName H)
     in if \<exists>item \<in> set pluginData. extraPluginInfo H item = None
        then (Inl PackageResolutionFailure, s)
        else (Inr (map (\<lambda>item. (item, the (extraPluginInfo H item))) pluginData), s))"

subsection \<open>The beforeLoad handler\<close>

text \<open>The handler registered in the constructor. It calls \<^verbatim>\<open>this.initDatabasePlugins()\<close>
  and stores the promise without awaiting it, then loops over \<^verbatim>\<open>this.plugins.values()\<close>.
  An async function runs until its first \<^verbatim>\<open>await\<close> when it is called:
  \<^verbatim>\<open>initDatabasePlugins\<close> issues the list query and is suspended there, before it
  registers anything. Its remaining work, one record at a time, takes place at later
  turns of the event loop, between the steps of the handler's own loop. Which turns
  those are is not fixed by the program, so it is a parameter: a schedule, a list of
  booleans where \<open>True\<close> gives the next turn to the pending \<^verbatim>\<open>initDatabasePlugins\<close> and
  \<open>False\<close> to the handler's loop; when the schedule is used up the handler's loop
  runs to its end. The records still to be registered when the handler returns are
  returned with its result. When the loop starts, \<^verbatim>\<open>initDatabasePlugins\<close> has only
  just issued its list query: the first \<^verbatim>\<open>next()\<close> and, when it reports the end, the
  return of the handler come before the database can answer, so an empty registry
  ends the handler at once.\<close>

record load_options =
  o_method :: "string option"
  o_reload :: "bool option"

text \<open>Modelled from the spec: \<^verbatim>\<open>collection.sync()\<close> belongs to the ORM; the spec says
  it ensures that the record table's schema is synchronized, so the table exists
  afterwards.\<close>

definition collection_sync :: "unit pm" where
  "collection_sync = (\<lambda>s. (Inr (), s\<lparr>tableExists := True\<rparr>))"

text \<open>One turn of \<^verbatim>\<open>initDatabasePlugins\<close>: \<^verbatim>\<open>this.setDatabasePlugin(pluginData)\<close> is
  called without \<^verbatim>\<open>await\<close>, so a rejection of it is dropped, and
  \<^verbatim>\<open>await checkPluginPackage(pluginData)\<close> ends the pending call when it throws.\<close>

fun initDatabasePlugins_turn :: "host \<Rightarrow> PluginData list \<Rightarrow> pm_state \<Rightarrow> PluginData list \<times> pm_state" where
  "initDatabasePlugins_turn H [] s = ([], s)"
| "initDatabasePlugins_turn H (pluginData # rest) s =
     (let s' = snd (setDatabasePlugin H pluginData s)
      in if checkPackageThrows H pluginData then ([], s') else (rest, s'))"

text \<open>The iterator of a Map is live: \<^verbatim>\<open>next()\<close> reads the entry at the iterator's
  position in the registry as it is at that moment.\<close>

definition fetch :: "(key \<times> Plugin) list \<Rightarrow> nat \<Rightarrow> Plugin option" where
  "fetch kvs i = (if i < length kvs then Some (snd (kvs ! i)) else None)"

fun beforeLoadEach :: "host \<Rightarrow> Plugin list \<Rightarrow> unit pm" where
  "beforeLoadEach H [] = ret ()"
| "beforeLoadEach H (plugin # rest) =
     await (callHook H BeforeLoad plugin) (\<lambda>_. beforeLoadEach H rest)"

text \<open>The loop \<^verbatim>\<open>for await (const plugin of this.plugins.values())\<close>. Its arguments are
  the schedule, the position of the iterator, the entry that the last \<^verbatim>\<open>next()\<close>
  returned (\<open>None\<close>: done) and the records that \<^verbatim>\<open>initDatabasePlugins\<close> has not
  registered yet. \<^verbatim>\<open>next()\<close> is called synchronously when the loop starts and after
  each body, so the first entry is read before any turn of the pending call. Once a
  body has awaited a hook the pending call may be ready to go on, so its turns may
  also come after the \<^verbatim>\<open>next()\<close> that reports the end and before the handler returns;
  the entries they register are not visited, the iterator being exhausted.\<close>

fun beforeLoadPass :: "host \<Rightarrow> bool list \<Rightarrow> nat \<Rightarrow> Plugin option \<Rightarrow> PluginData list \<Rightarrow> pm_state
    \<Rightarrow> (error + unit) \<times> PluginData list \<times> pm_state" where
  "beforeLoadPass H (True # sched) i None pending s =
     (case initDatabasePlugins_turn H pending s of
        (pending', s') \<Rightarrow> beforeLoadPass H sched i None pending' s')"
| "beforeLoadPass H sched i None pending s = (Inr (), pending, s)"
| "beforeLoadPass H [] i (Some plugin) pending s =
     (case beforeLoadEach H (plugin # map snd (drop (Suc i) (plugins s))) s of
        (r, s') \<Rightarrow> (r, pending, s'))"
| "beforeLoadPass H (True # sched) i (Some plugin) pending s =
     (case initDatabasePlugins_turn H pending s of
        (pending', s') \<Rightarrow> beforeLoadPass H sched i (Some plugin) pending' s')"
| "beforeLoadPass H (False # sched) i (Some plugin) pending s =
     (case callHook H BeforeLoad plugin s of
        (Inl e, s') \<Rightarrow> (Inl e, pending, s')
      | (Inr _, s') \<Rightarrow> beforeLoadPass H sched (Suc i) (fetch (plugins s') (Suc i)) pending s')"

definition beforeLoadHandler :: "host \<Rightarrow> bool list \<Rightarrow> load_options \<Rightarrow> pm_state
    \<Rightarrow> (error + unit) \<times> PluginData list \<times> pm_state" where
  "beforeLoadHandler H sched options s =
     (let s1 = (if o_method options = Some ''install'' \<or> o_method options = Some ''upgrade''
                then snd (collection_sync s) else s)
      in if \<not> tableExists s1 then (Inr (), [], s1)
         else if o_method options \<noteq> Some ''install'' \<or> truthy (o_reload options)
         then (case fetch (plugins s1) 0 of
                 None \<Rightarrow> (Inr (), repo_list s1 (appName H), s1)
               | Some plugin \<Rightarrow>
                   beforeLoadPass H sched 0 (Some plugin) (repo_list s1 (appName H)) s1)
         else (Inr (), [], s1))"

subsection \<open>The command line dispatch and the control socket\<close>

text \<open>The collaborators of the command line methods: whether the client's connection
  to the control socket succeeds; \<^verbatim>\<open>path.join(getPluginPackagesPath(), name)\<close>;
  \<^verbatim>\<open>fs.existsSync\<close> on a package directory; and whether \<^verbatim>\<open>addByLocalPackage\<close>, the
  plugin generator and \<^verbatim>\<open>yarn install\<close> fail.\<close>

record cli =
  connects :: bool
  pluginPackagesPath :: "string \<Rightarrow> string"
  localPackageExists :: "string \<Rightarrow> bool"
  addByLocalPackageThrows :: "string \<Rightarrow> bool"
  generatorThrows :: "string \<Rightarrow> bool"
  yarnInstallThrows :: bool

text \<open>The control message \<^verbatim>\<open>{ method, plugins }\<close>. On the wire it is
  \<^verbatim>\<open>JSON.stringify(data)\<close>, and \<^verbatim>\<open>JSON.parse\<close> of that gives the same method and
  names back, so the message stands for its own serialisation.\<close>

record control_message =
  m_method :: string
  m_plugins :: names

text \<open>What the client does with its socket: the attempt to connect, the write of
  the message and the end of the connection, or the error event of a connection
  that failed.\<close>

datatype socket_action = SocketConnect | SocketWrite control_message | SocketEnd | SocketError

text \<open>A call of an async method that its caller has not awaited to the end, as
  \<^verbatim>\<open>Promise.all\<close> holds the calls it has started. The call has settled with a result,
  or it is suspended at an \<^verbatim>\<open>await\<close>. A suspended call goes on at a later turn of the
  event loop: when the turn finds the state \<open>s\<close>, \<open>Pending t k\<close> leaves the state
  \<open>t s\<close> and goes on as the call \<open>k s\<close>. One turn is the completion of the awaited
  operation together with the synchronous code that follows it, up to the next
  \<^verbatim>\<open>await\<close>; a hook or a repository operation is one turn.\<close>

datatype 'a job = Settled "error + 'a" | Pending "pm_state \<Rightarrow> pm_state" "pm_state \<Rightarrow> 'a job"

text \<open>\<open>on_turn m k\<close> is suspended at \<^verbatim>\<open>await m\<close>: its turn runs \<open>m\<close>, and the call is
  rejected with the error of \<open>m\<close> or goes on as \<open>k\<close> of its value.\<close>

definition on_turn :: "'a pm \<Rightarrow> ('a \<Rightarrow> 'b job) \<Rightarrow> 'b job" where
  "on_turn m k =
     Pending (\<lambda>s. snd (m s))
             (\<lambda>s. case fst (m s) of Inl e \<Rightarrow> Settled (Inl e) | Inr x \<Rightarrow> k x)"

text \<open>A call run on its own, every turn following the one before.\<close>

primrec run_job :: "'a job \<Rightarrow> 'a pm" where
  "run_job (Settled r) = (\<lambda>s. (r, s))"
| "run_job (Pending t k) = (\<lambda>s. run_job (k s) (t s))"

text \<open>Calling an async method runs its body up to the first \<^verbatim>\<open>await\<close> at once, on the
  state of that moment, and returns the call as it then stands. \<open>sync m k\<close> is
  synchronous code \<open>m\<close> at the head of the body, \<open>waiting j\<close> the first \<^verbatim>\<open>await\<close>.\<close>

type_synonym 'a started = "pm_state \<Rightarrow> 'a job \<times> pm_state"

definition sync :: "'a pm \<Rightarrow> ('a \<Rightarrow> 'b started) \<Rightarrow> 'b started" where
  "sync m k = (\<lambda>s. case m s of (Inl e, s') \<Rightarrow> (Settled (Inl e), s') | (Inr x, s') \<Rightarrow> k x s')"

definition waiting :: "'a job \<Rightarrow> 'a started" where
  "waiting j = (\<lambda>s. (j, s))"

definition run_started :: "'a started \<Rightarrow> 'a pm" where
  "run_started c = (\<lambda>s. case c s of (j, s') \<Rightarrow> run_job j s')"

definition fulfilled :: "unit job" where
  "fulfilled = Settled (Inr ())"

text \<open>\<^verbatim>\<open>load\<close>, \<^verbatim>\<open>enable\<close>, \<^verbatim>\<open>disable\<close> and \<^verbatim>\<open>remove\<close> once more, cut at their
  awaits. Run on their own they are the methods above (lemmas \<open>run_enable_job\<close>,
  \<open>run_disable_job\<close>, \<open>run_remove_job\<close>).\<close>

definition load_job :: "host \<Rightarrow> Plugin \<Rightarrow> unit job" where
  "load_job H pluginInstance =
     (if \<not> truthy (pl_enabled pluginInstance) then fulfilled
      else
        on_turn (emitAsync H (BeforeLoadPlugin pluginInstance)) (\<lambda>_.
        on_turn (callHook H Load pluginInstance) (\<lambda>_.
        on_turn (emitAsync H (AfterLoadPlugin pluginInstance)) (\<lambda>_. fulfilled))))"

definition enable_job :: "host \<Rightarrow> string \<Rightarrow> unit started" where
  "enable_job H nm =
     sync (getPluginInstance nm) (\<lambda>pluginInstance.
     sync (checkRequired nm (requiredPluginsOf H pluginInstance)) (\<lambda>_.
     waiting
       (on_turn (repo_update \<lparr>f_name = nm, f_appName = appName H, f_builtIn = None\<rparr>
                   [SetEnabled True]) (\<lambda>_.
        on_turn (callHook H Install pluginInstance) (\<lambda>_.
        on_turn (callHook H AfterEnable pluginInstance) (\<lambda>_.
        on_turn (emitAsync H (AfterEnablePlugin nm)) (\<lambda>_.
        load_job H pluginInstance)))))))"

definition disable_job :: "host \<Rightarrow> string \<Rightarrow> unit started" where
  "disable_job H nm =
     sync (getPluginInstance nm) (\<lambda>pluginInstance.
     if truthy (pl_builtIn pluginInstance) then waiting (Settled (Inl (BuiltInProtected nm)))
     else waiting
       (on_turn (repo_update \<lparr>f_name = nm, f_appName = appName H, f_builtIn = Some False\<rparr>
                   [SetEnabled False]) (\<lambda>_.
        on_turn (callHook H AfterDisable pluginInstance) (\<lambda>_.
        on_turn (emitAsync H (AfterDisablePlugin nm)) (\<lambda>_. fulfilled)))))"

definition remove_job :: "host \<Rightarrow> string \<Rightarrow> unit started" where
  "remove_job H nm =
     sync (getPluginInstance nm) (\<lambda>pluginInstance.
     if truthy (pl_builtIn pluginInstance) then waiting (Settled (Inl (BuiltInProtected nm)))
     else waiting
       (on_turn (callHook H Remove pluginInstance) (\<lambda>_.
        on_turn (await (repo_destroy \<lparr>f_name = nm, f_appName = appName H, f_builtIn = Some False\<rparr>)
                   (\<lambda>_ s. (Inr (), s\<lparr>plugins := map_delete (plugins s) (Name nm)\<rparr>))) (\<lambda>_.
        on_turn (removePluginPackage H nm) (\<lambda>_. fulfilled)))))"

text \<open>\<^verbatim>\<open>createByCli\<close>: the message, then \<^verbatim>\<open>await generator.run()\<close> and
  \<^verbatim>\<open>await run('yarn', ['install'])\<close>. \<^verbatim>\<open>addByCli\<close>: the message, the test of the
  package directory, \<^verbatim>\<open>await addByLocalPackage(localPackage)\<close> and then
  \<^verbatim>\<open>this.addByLocalPath(localPackage)\<close>, whose test of the registry is made when it is
  called, after \<^verbatim>\<open>addByLocalPackage\<close> has completed. The record that \<^verbatim>\<open>addByLocalPath\<close>
  returns is not used by the dispatch and is dropped.\<close>

definition generatorRun :: "cli \<Rightarrow> string \<Rightarrow> unit pm" where
  "generatorRun C nm =
     await (record_action (GeneratePlugin nm)) (\<lambda>_.
       if generatorThrows C nm then throw (ToolFailure ''generator'') else ret ())"

definition yarnInstall :: "cli \<Rightarrow> unit pm" where
  "yarnInstall C =
     await (record_action YarnInstall) (\<lambda>_.
       if yarnInstallThrows C then throw (ToolFailure ''yarn'') else ret ())"

definition addByLocalPackage :: "cli \<Rightarrow> string \<Rightarrow> unit pm" where
  "addByLocalPackage C localPackage =
     await (record_action (AddLocalPackage localPackage)) (\<lambda>_.
       if addByLocalPackageThrows C localPackage then throw (ToolFailure ''addByLocalPackage'')
       else ret ())"

definition createByCli :: "cli \<Rightarrow> string \<Rightarrow> unit started" where
  "createByCli C nm =
     sync (record_action (LogText (''creating '' @ nm @ '' plugin...''))) (\<lambda>_.
     waiting
       (on_turn (generatorRun C nm) (\<lambda>_.
        on_turn (yarnInstall C) (\<lambda>_. fulfilled))))"

definition addByLocalPath_check :: "host \<Rightarrow> string \<Rightarrow> (string \<times> string) pm" where
  "addByLocalPath_check H localPath = (\<lambda>s.
     case packageJson H localPath of
       None \<Rightarrow> (Inl PackageResolutionFailure, s)
     | Some (nm, version) \<Rightarrow>
         if map_has (plugins s) (Name nm) then (Inl (DuplicatePlugin nm), s)
         else (Inr (nm, version), s))"

definition addByLocalPath_job :: "host \<Rightarrow> local_data \<Rightarrow> string \<times> string \<Rightarrow> unit job" where
  "addByLocalPath_job H data = (\<lambda>(nm, version).
     let zipUrl = l_zipUrl data;
         builtIn = (case l_builtIn data of None \<Rightarrow> False | Some b \<Rightarrow> b);
         isOfficial = (case l_isOfficial data of None \<Rightarrow> False | Some b \<Rightarrow> b)
     in on_turn
          (await (repo_create (noData\<lparr>pd_name := Some nm, pd_appName := Some (appName H),
                    pd_zipUrl := zipUrl, pd_builtIn := Some builtIn,
                    pd_isOfficial := Some isOfficial,
                    pd_clientUrl := Some (clientStaticUrl H nm),
                    pd_version := Some version, pd_enabled := Some False,
                    pd_installed := Some True\<rparr>)) (\<lambda>res.
           setDatabasePlugin H (noData\<lparr>pd_name := Some nm,
                    pd_enabled := Some False, pd_builtIn := Some builtIn\<rparr>))) (\<lambda>instance.
        on_turn (callHook H AfterAdd instance) (\<lambda>_. fulfilled)))"

definition addByCli :: "cli \<Rightarrow> host \<Rightarrow> string \<Rightarrow> unit started" where
  "addByCli C H nm =
     sync (record_action (LogText (''adding '' @ nm @ '' plugin...''))) (\<lambda>_.
     let localPackage = pluginPackagesPath C nm
     in if \<not> localPackageExists C localPackage
        then waiting (Settled (Inl (LocalPackageMissing nm)))
        else waiting
          (on_turn (await (addByLocalPackage C localPackage)
                      (\<lambda>_. addByLocalPath_check H localPackage))
             (addByLocalPath_job H \<lparr>l_zipUrl = None, l_builtIn = None, l_isOfficial = None\<rparr>)))"

text \<open>\<^verbatim>\<open>this[`${method}ByCli`]\<close>: the manager has \<^verbatim>\<open>createByCli\<close>, \<^verbatim>\<open>addByCli\<close> and the
  getters \<^verbatim>\<open>removeByCli\<close>, \<^verbatim>\<open>enableByCli\<close>, \<^verbatim>\<open>disableByCli\<close>, which return \<^verbatim>\<open>remove\<close>,
  \<^verbatim>\<open>enable\<close> and \<^verbatim>\<open>disable\<close>; for any other method the property is \<^verbatim>\<open>undefined\<close>.\<close>

definition byCli :: "cli \<Rightarrow> host \<Rightarrow> string \<Rightarrow> (string \<Rightarrow> unit started) option" where
  "byCli C H method =
     (if method = ''create'' then Some (createByCli C)
      else if method = ''add'' then Some (addByCli C H)
      else if method = ''remove'' then Some (remove_job H)
      else if method = ''enable'' then Some (enable_job H)
      else if method = ''disable'' then Some (disable_job H)
      else None)"

text \<open>\<^verbatim>\<open>doCliCommand(method, name)\<close>: \<^verbatim>\<open>pluginNames.map\<close> starts one call for each
  name, in order, and \<^verbatim>\<open>Promise.all\<close> holds the started calls. Calling what is not a
  function throws a TypeError out of \<^verbatim>\<open>map\<close>, at the first name; with no name nothing
  is called.\<close>

definition names_of :: "names \<Rightarrow> string list" where
  "names_of name = (case name of One n \<Rightarrow> [n] | Many ns \<Rightarrow> ns)"

fun startAll :: "(string \<Rightarrow> unit started) \<Rightarrow> string list \<Rightarrow> pm_state \<Rightarrow> unit job list \<times> pm_state" where
  "startAll call [] s = ([], s)"
| "startAll call (nm # rest) s =
     (case call nm s of (j, s1) \<Rightarrow>
        (case startAll call rest s1 of (js, s2) \<Rightarrow> (j # js, s2)))"

datatype promise = Threw error | Promised "unit job list"

definition doCliCommand :: "cli \<Rightarrow> host \<Rightarrow> string \<Rightarrow> names \<Rightarrow> pm_state \<Rightarrow> promise \<times> pm_state" where
  "doCliCommand C H method name s =
     (let pluginNames = names_of name
      in if pluginNames = [] then (Promised [], s)
         else case byCli C H method of
                None \<Rightarrow> (Threw TypeError, s)
              | Some call \<Rightarrow>
                  (case startAll call pluginNames s of (jobs, s') \<Rightarrow> (Promised jobs, s')))"

text \<open>Awaiting \<^verbatim>\<open>Promise.all\<close> inside \<^verbatim>\<open>try\<close>: the first call that is rejected rejects
  the whole, and the \<^verbatim>\<open>catch\<close> block prints its error at that moment; the other calls
  go on to their ends all the same. Which suspended call takes the next turn is not
  fixed by the program, so it is a parameter: a schedule, the list of the positions
  of the calls that take the turns, one after the other. A position that names no
  suspended call takes no turn, and when the schedule is used up the calls still
  suspended run to their ends in the order of the list.\<close>

definition note_rejection :: "bool \<Rightarrow> unit job \<Rightarrow> pm_state \<Rightarrow> bool \<times> pm_state" where
  "note_rejection caught j s =
     (case j of
        Settled (Inl e) \<Rightarrow>
          (True, if caught then s else s\<lparr>trace := trace s @ [ConsoleError e]\<rparr>)
      | _ \<Rightarrow> (caught, s))"

fun note_started :: "unit job list \<Rightarrow> bool \<Rightarrow> pm_state \<Rightarrow> bool \<times> pm_state" where
  "note_started [] caught s = (caught, s)"
| "note_started (j # js) caught s =
     (case note_rejection caught j s of (caught', s') \<Rightarrow> note_started js caught' s')"

fun drain :: "unit job list \<Rightarrow> bool \<Rightarrow> pm_state \<Rightarrow> pm_state" where
  "drain [] caught s = s"
| "drain (Settled r # js) caught s = drain js caught s"
| "drain (Pending t k # js) caught s =
     (case run_job (Pending t k) s of (r, s') \<Rightarrow>
        (case note_rejection caught (Settled r) s' of (caught', s'') \<Rightarrow> drain js caught' s''))"

fun awaitAll :: "nat list \<Rightarrow> unit job list \<Rightarrow> bool \<Rightarrow> pm_state \<Rightarrow> pm_state" where
  "awaitAll [] jobs caught s = drain jobs caught s"
| "awaitAll (i # sched) jobs caught s =
     (if i < length jobs
      then (case jobs ! i of
              Settled r \<Rightarrow> awaitAll sched jobs caught s
            | Pending t k \<Rightarrow>
                (case note_rejection caught (k s) (t s) of
                   (caught', s') \<Rightarrow> awaitAll sched (jobs[i := k s]) caught' s'))
      else awaitAll sched jobs caught s)"

text \<open>The block that \<^verbatim>\<open>clientWrite\<close> has twice and the server's data handler once:
  \<^verbatim>\<open>try { console.log(method, plugins); await this.doCliCommand(method, plugins) }
  catch (error) { console.error(error.message) }\<close>. Nothing is thrown out of it.\<close>

definition dispatch :: "cli \<Rightarrow> host \<Rightarrow> nat list \<Rightarrow> string \<Rightarrow> names \<Rightarrow> pm_state \<Rightarrow> pm_state" where
  "dispatch C H sched method name s =
     (case doCliCommand C H method name (s\<lparr>trace := trace s @ [LogCommand method name]\<rparr>) of
        (Threw e, s1) \<Rightarrow> s1\<lparr>trace := trace s1 @ [ConsoleError e]\<rparr>
      | (Promised jobs, s1) \<Rightarrow>
          (case note_started jobs False s1 of (caught, s2) \<Rightarrow> awaitAll sched jobs caught s2))"

text \<open>\<^verbatim>\<open>clientWrite\<close>, with what it does on its socket beside the state it leaves, and
  the handler of the server's \<^verbatim>\<open>data\<close> event. The echo \<^verbatim>\<open>socket.pipe(socket)\<close> of the
  server touches neither the registry nor the store and is left out.\<close>

definition clientWrite :: "cli \<Rightarrow> host \<Rightarrow> nat list \<Rightarrow> control_message \<Rightarrow> pm_state
    \<Rightarrow> socket_action list \<times> pm_state" where
  "clientWrite C H sched data s =
     (if m_method data = ''create''
      then ([], dispatch C H sched (m_method data) (m_plugins data) s)
      else if connects C then ([SocketConnect, SocketWrite data, SocketEnd], s)
      else ([SocketConnect, SocketError], dispatch C H sched (m_method data) (m_plugins data) s))"

definition serverOnData :: "cli \<Rightarrow> host \<Rightarrow> nat list \<Rightarrow> control_message \<Rightarrow> pm_state \<Rightarrow> pm_state" where
  "serverOnData C H sched data s = dispatch C H sched (m_method data) (m_plugins data) s"

text \<open>A \<^verbatim>\<open>try\<close> and \<^verbatim>\<open>catch\<close> around one call that is run on its own.\<close>

definition catchError :: "(error + unit) \<times> pm_state \<Rightarrow> pm_state" where
  "catchError r =
     (case r of
        (Inl e, s) \<Rightarrow> s\<lparr>trace := trace s @ [ConsoleError e]\<rparr>
      | (Inr _, s) \<Rightarrow> s)"

subsection \<open>Concrete hosts and states\<close>

text \<open>A host for the examples: the application is \<^verbatim>\<open>main\<close>; the packages \<^verbatim>\<open>foo\<close>,
  \<^verbatim>\<open>bar\<close> and \<^verbatim>\<open>baz\<close> export the classes 1, 2 and 3; the plugin \<^verbatim>\<open>foo\<close> requires
  the plugins \<open>req\<close>; the hooks listed in \<open>failing\<close>, by class, throw; no event
  handler throws.\<close>

definition demoHost :: "string list \<Rightarrow> (hook \<times> nat) list \<Rightarrow> host" where
  "demoHost req failing = \<lparr>appName = ''main'',
     modules = (\<lambda>n. if n = ''foo'' then Some (ClassRef 1)
                     else if n = ''bar'' then Some (ClassRef 2)
                     else if n = ''baz'' then Some (ClassRef 3) else None),
     requiredPluginsOf = (\<lambda>p. if pl_name p = Some ''foo'' then req else []),
     hookThrows = (\<lambda>h p. (h, pl_class p) \<in> set failing),
     emitThrows = (\<lambda>_. False),
     packageJson = (\<lambda>path. if path = ''/plugins/foo'' \<or> path = ''/tmp/foo''
                            then Some (''foo'', ''1.0.0'') else None),
     npm = (\<lambda>nm reg ver. case ver of None \<Rightarrow> Some ''1.0.0'' | Some v \<Rightarrow> Some v),
     newVersion = (\<lambda>pd. Some (if pd_version pd = Some ''1.0.0'' then Some ''1.1.0'' else None)),
     clientStaticUrl = (\<lambda>nm. ''/api/'' @ nm @ ''/index.js''),
     checkPackageThrows = (\<lambda>_. False),
     extraPluginInfo = (\<lambda>_. Some []),
     removePackageThrows = (\<lambda>_. False)\<rparr>"

definition demoPlugin :: "nat \<Rightarrow> string \<Rightarrow> bool \<Rightarrow> Plugin" where
  "demoPlugin c nm en =
     \<lparr>pl_class = c, pl_name = Some nm, pl_enabled = Some en, pl_builtIn = Some False\<rparr>"

definition demoRecord :: "string \<Rightarrow> bool \<Rightarrow> bool \<Rightarrow> PluginData" where
  "demoRecord nm en bi = noData\<lparr>pd_name := Some nm, pd_appName := Some ''main'',
     pd_version := Some ''1.0.0'', pd_enabled := Some en, pd_installed := Some True,
     pd_builtIn := Some bi\<rparr>"

definition demoState :: "(key \<times> Plugin) list \<Rightarrow> PluginData list \<Rightarrow> pm_state" where
  "demoState ps rs = \<lparr>plugins = ps, store = rs, tableExists = True, trace = []\<rparr>"

text \<open>A plugin registered statically as \<^verbatim>\<open>[FooPlugin, {name: 'foo'}]\<close>: its options
  give neither \<^verbatim>\<open>enabled\<close> nor \<^verbatim>\<open>builtIn\<close>.\<close>

definition staticPlugin :: Plugin where
  "staticPlugin = \<lparr>pl_class = 1, pl_name = Some ''foo'', pl_enabled = None, pl_builtIn = None\<rparr>"

text \<open>The record that \<^verbatim>\<open>addByLocalPath\<close> creates for the package \<^verbatim>\<open>foo\<close>, and the
  state after adding it to an empty manager.\<close>

definition demoLocalRecord :: PluginData where
  "demoLocalRecord = noData\<lparr>pd_name := Some ''foo'', pd_appName := Some ''main'',
     pd_builtIn := Some False, pd_isOfficial := Some False,
     pd_clientUrl := Some ''/api/foo/index.js'', pd_version := Some ''1.0.0'',
     pd_enabled := Some False, pd_installed := Some True\<rparr>"

definition demoAdded :: pm_state where
  "demoAdded = \<lparr>plugins = [(Name ''foo'', demoPlugin 1 ''foo'' False)],
     store = [demoLocalRecord], tableExists = True,
     trace = [DbCreate demoLocalRecord, Construct (Name ''foo'') (demoPlugin 1 ''foo'' False),
              HookCall AfterAdd (demoPlugin 1 ''foo'' False)]\<rparr>"

text \<open>The state after \<^verbatim>\<open>enable('foo')\<close> on it.\<close>

definition demoEnabledOnce :: pm_state where
  "demoEnabledOnce = demoAdded\<lparr>store := [demoLocalRecord\<lparr>pd_enabled := Some True\<rparr>],
     trace := trace demoAdded @
       [DbUpdate \<lparr>f_name = ''foo'', f_appName = ''main'', f_builtIn = None\<rparr> [SetEnabled True],
        HookCall Install (demoPlugin 1 ''foo'' False),
        HookCall AfterEnable (demoPlugin 1 ''foo'' False),
        Emit (AfterEnablePlugin ''foo'')]\<rparr>"

definition noLocalData :: local_data where
  "noLocalData = \<lparr>l_zipUrl = None, l_builtIn = None, l_isOfficial = None\<rparr>"

text \<open>Two enabled plugins, \<^verbatim>\<open>bar\<close> registered before \<^verbatim>\<open>foo\<close>, and three
  enabled plugins in the order \<^verbatim>\<open>foo\<close>, \<^verbatim>\<open>bar\<close>, \<^verbatim>\<open>baz\<close>.\<close>

definition demoTwo :: pm_state where
  "demoTwo = demoState
     [(Name ''bar'', demoPlugin 2 ''bar'' True), (Name ''foo'', demoPlugin 1 ''foo'' True)]
     [demoRecord ''foo'' False False]"

definition demoThree :: pm_state where
  "demoThree = demoState
     [(Name ''foo'', demoPlugin 1 ''foo'' True), (Name ''bar'', demoPlugin 2 ''bar'' True),
      (Name ''baz'', demoPlugin 3 ''baz'' True)]
     [demoRecord ''foo'' True False, demoRecord ''bar'' True False, demoRecord ''baz'' True False]"

text \<open>A manager whose registry holds \<^verbatim>\<open>foo\<close> as a built-in instance.\<close>

definition demoBuiltIn :: pm_state where
  "demoBuiltIn = demoState [(Name ''foo'', staticPlugin\<lparr>pl_builtIn := Some True\<rparr>)]
     [demoRecord ''foo'' True True]"

text \<open>The call \<^verbatim>\<open>addByNpm({name: 'foo', registry: 'r'})\<close> on an empty manager: the
  record it creates, the record after the update, the instance, and the state it
  leaves; and a manager with an enabled plugin \<^verbatim>\<open>foo\<close> at version 1.0.0.\<close>

definition demoNpmData :: npm_data where
  "demoNpmData = \<lparr>d_name = ''foo'', d_registry = Some ''r'', d_builtIn = None, d_isOfficial = None\<rparr>"

definition demoNpmCreated :: PluginData where
  "demoNpmCreated = noData\<lparr>pd_name := Some ''foo'', pd_registry := Some ''r'',
     pd_appName := Some ''main'', pd_enabled := Some False, pd_installed := Some False\<rparr>"

definition demoNpmInstalled :: PluginData where
  "demoNpmInstalled = demoNpmCreated\<lparr>pd_version := Some ''1.0.0'',
     pd_clientUrl := Some ''/api/foo/index.js'', pd_installed := Some True\<rparr>"

definition demoNpmPlugin :: Plugin where
  "demoNpmPlugin = \<lparr>pl_class = 1, pl_name = Some ''foo'', pl_enabled = Some False, pl_builtIn = None\<rparr>"

definition demoNpmAdded :: pm_state where
  "demoNpmAdded = \<lparr>plugins = [(Name ''foo'', demoNpmPlugin)], store = [demoNpmInstalled],
     tableExists = True,
     trace = [DbCreate demoNpmCreated, NpmInstall ''foo'' (Some ''r'') None,
              DbUpdate \<lparr>f_name = ''foo'', f_appName = ''main'', f_builtIn = None\<rparr>
                [SetVersion (Some ''1.0.0''), SetClientUrl ''/api/foo/index.js'', SetInstalled True],
              Construct (Name ''foo'') demoNpmPlugin, HookCall AfterAdd demoNpmPlugin]\<rparr>"

definition demoUpgradable :: pm_state where
  "demoUpgradable = demoState [(Name ''foo'', demoPlugin 1 ''foo'' True)] [demoRecord ''foo'' True False]"

text \<open>Command line collaborators for the examples (only the package directory of
  \<^verbatim>\<open>foo\<close> exists, no tool fails), and two commands.\<close>

definition demoCli :: "bool \<Rightarrow> cli" where
  "demoCli up = \<lparr>connects = up,
     pluginPackagesPath = (\<lambda>nm. ''/plugins/'' @ nm),
     localPackageExists = (\<lambda>path. path = ''/plugins/foo''),
     addByLocalPackageThrows = (\<lambda>_. False),
     generatorThrows = (\<lambda>_. False),
     yarnInstallThrows = False\<rparr>"

definition demoEnableFoo :: control_message where
  "demoEnableFoo = \<lparr>m_method = ''enable'', m_plugins = One ''foo''\<rparr>"

definition demoCreateTwo :: control_message where
  "demoCreateTwo = \<lparr>m_method = ''create'', m_plugins = Many [''a'', ''b'']\<rparr>"

subsection \<open>What one load does\<close>

text \<open>The actions of \<open>load\<close> on an instance when nothing fails, and the condition that
  nothing in them fails.\<close>

definition load_actions :: "Plugin \<Rightarrow> action list" where
  "load_actions p =
     (if truthy (pl_enabled p)
      then [Emit (BeforeLoadPlugin p), HookCall Load p, Emit (AfterLoadPlugin p)] else [])"

definition loads_ok :: "host \<Rightarrow> Plugin \<Rightarrow> bool" where
  "loads_ok H p = (\<not> emitThrows H (BeforeLoadPlugin p) \<and> \<not> hookThrows H Load p \<and>
     \<not> emitThrows H (AfterLoadPlugin p))"

section \<open>Properties\<close>

lemmas step_defs = await_def ret_def throw_def record_action_def callHook_def emitAsync_def
  repo_update_def repo_destroy_def getPluginInstance_def

lemmas demo_defs = demoHost_def demoState_def demoPlugin_def demoRecord_def noData_def

subsection \<open>Basic facts\<close>

lemma map_of_map_set: "map_of (map_set kvs k v) k = Some v"
  by (induction kvs) auto

lemma callHook_plugins: "callHook H h p s = (r, s') \<Longrightarrow> plugins s' = plugins s"
  by (auto simp: step_defs split: if_splits)

lemma load_step:
  "truthy (pl_enabled p) \<longrightarrow> loads_ok H p \<Longrightarrow>
   load H p s = (Inr (), s\<lparr>trace := trace s @ load_actions p\<rparr>)"
  by (simp add: load_def load_actions_def loads_ok_def step_defs)

lemma load_throws:
  "truthy (pl_enabled p) \<Longrightarrow> \<not> emitThrows H (BeforeLoadPlugin p) \<Longrightarrow> hookThrows H Load p \<Longrightarrow>
   load H p s = (Inl (HookFailure Load p),
                 s\<lparr>trace := trace s @ [Emit (BeforeLoadPlugin p), HookCall Load p]\<rparr>)"
  by (simp add: load_def step_defs)

lemma loadEach_prefix:
  "\<forall>p \<in> set xs. truthy (pl_enabled p) \<longrightarrow> loads_ok H p \<Longrightarrow>
   loadEach H (xs @ ys) s = loadEach H ys (s\<lparr>trace := trace s @ concat (map load_actions xs)\<rparr>)"
proof (induction xs arbitrary: s)
  case Nil
  then show ?case by simp
next
  case (Cons x xs)
  then show ?case
    by (simp add: await_def load_step)
qed

lemma checkRequired_ok:
  "\<forall>r \<in> set rs. \<exists>q. map_get (plugins s) (Name r) = Some q \<and> truthy (pl_enabled q) \<Longrightarrow>
   checkRequired nm rs s = (Inr (), s)"
  by (induction rs) (auto simp: ret_def)

lemma enable_ok:
  assumes "map_get (plugins s) (Name nm) = Some p"
    and "\<forall>r \<in> set (requiredPluginsOf H p).
           \<exists>q. map_get (plugins s) (Name r) = Some q \<and> truthy (pl_enabled q)"
    and "\<not> hookThrows H Install p" and "\<not> hookThrows H AfterEnable p"
    and "\<not> emitThrows H (AfterEnablePlugin nm)" and "truthy (pl_enabled p) \<longrightarrow> loads_ok H p"
  shows "enable H nm s =
     (Inr (),
      s\<lparr>store := map (\<lambda>r. if matches \<lparr>f_name = nm, f_appName = appName H, f_builtIn = None\<rparr> r
                          then r\<lparr>pd_enabled := Some True\<rparr> else r) (store s),
        trace := trace s @
          [DbUpdate \<lparr>f_name = nm, f_appName = appName H, f_builtIn = None\<rparr> [SetEnabled True],
           HookCall Install p, HookCall AfterEnable p, Emit (AfterEnablePlugin nm)] @
          load_actions p\<rparr>)"
proof -
  have req: "checkRequired nm (requiredPluginsOf H p) s = (Inr (), s)"
    using assms(2) by (rule checkRequired_ok)
  show ?thesis
    using assms(1,3,4,5) load_step [OF assms(6)]
    by (simp add: enable_def step_defs req apply_values_def)
qed

lemma enable_store_idem:
  "map (\<lambda>r. if matches f r then r\<lparr>pd_enabled := Some True\<rparr> else r)
     (map (\<lambda>r. if matches f r then r\<lparr>pd_enabled := Some True\<rparr> else r) rs)
   = map (\<lambda>r. if matches f r then r\<lparr>pd_enabled := Some True\<rparr> else r) rs"
  by (induction rs) (auto simp: matches_def)

lemma setDatabasePlugin_registers:
  assumes "setDatabasePlugin H pd s = (Inr inst, s')" and "pd_name pd = Some nm"
  shows "map_has (plugins s') (Name nm)"
  using assms
  by (auto simp: setDatabasePlugin_def require_def setPluginInstance_def await_def ret_def
      throw_def map_has_def instance_key_def truthy_str_def map_of_map_set Let_def
      split: if_splits option.splits export.splits)

lemma addByLocalPath_registers:
  assumes "addByLocalPath H p1 d1 s = (Inr res, s1)" and "packageJson H p1 = Some (nm, v1)"
  shows "map_has (plugins s1) (Name nm)"
proof -
  let ?b = "case l_builtIn d1 of None \<Rightarrow> False | Some b \<Rightarrow> b"
  let ?pd = "noData\<lparr>pd_name := Some nm, pd_enabled := Some False, pd_builtIn := Some ?b\<rparr>"
  from assms obtain sa sb inst where
    db: "setDatabasePlugin H ?pd sa = (Inr inst, sb)" and
    hk: "callHook H AfterAdd inst sb = (Inr (), s1)"
    by (auto simp: addByLocalPath_def await_def ret_def Let_def
        split: if_splits prod.splits sum.splits)
  have "map_has (plugins sb) (Name nm)"
    using db by (rule setDatabasePlugin_registers) simp
  with callHook_plugins [OF hk] show ?thesis by simp
qed

lemma find_matches: "find P xs = Some x \<Longrightarrow> P x"
  by (induction xs) (auto split: if_splits)

lemma addByNpm_success:
  assumes "addByNpm H data s = (Inr res, s1)"
  shows "\<exists>v c. npm H (d_name data) (d_registry data) None = Some v \<and>
     modules H (d_name data) = Some (ClassRef c) \<and> d_name data \<noteq> [] \<and>
     \<not> map_has (plugins s) (Name (d_name data)) \<and>
     res = noData\<lparr>pd_name := Some (d_name data),
                 pd_registry := d_registry data, pd_appName := Some (appName H),
                 pd_enabled := Some False, pd_isOfficial := d_isOfficial data,
                 pd_installed := Some False, pd_builtIn := d_builtIn data\<rparr> \<and>
     s1 = s\<lparr>plugins := map_set (plugins s) (Name (d_name data))
                \<lparr>pl_class = c, pl_name = Some (d_name data), pl_enabled = Some False,
                 pl_builtIn = d_builtIn data\<rparr>,
            store := map (\<lambda>r. if matches \<lparr>f_name = d_name data, f_appName = appName H, f_builtIn = None\<rparr> r
                   then r\<lparr>pd_version := Some v, pd_clientUrl := Some (clientStaticUrl H (d_name data)),
                          pd_installed := Some True\<rparr> else r) (store s @ [res]),
            trace := trace s @
              [DbCreate res, NpmInstall (d_name data) (d_registry data) None,
               DbUpdate \<lparr>f_name = d_name data, f_appName = appName H, f_builtIn = None\<rparr>
                 [SetVersion (Some v), SetClientUrl (clientStaticUrl H (d_name data)), SetInstalled True],
               Construct (Name (d_name data))
                 \<lparr>pl_class = c, pl_name = Some (d_name data), pl_enabled = Some False,
                  pl_builtIn = d_builtIn data\<rparr>,
               HookCall AfterAdd
                 \<lparr>pl_class = c, pl_name = Some (d_name data), pl_enabled = Some False,
                  pl_builtIn = d_builtIn data\<rparr>]\<rparr>"
  using assms
  by (auto simp: addByNpm_def addOrUpdatePluginByNpm_def setDatabasePlugin_def require_def
      setPluginInstance_def repo_create_def instance_key_def truthy_str_def step_defs
      apply_values_def Let_def noData_def
      split: if_splits option.splits export.splits)

lemma checkRequired_prefix:
  "\<forall>r \<in> set ok. \<exists>q. map_get (plugins s) (Name r) = Some q \<and> truthy (pl_enabled q) \<Longrightarrow>
   checkRequired nm (ok @ rest) s = checkRequired nm rest s"
  by (induction ok) auto

lemma checkRequired_not_enabled:
  assumes "\<forall>r \<in> set ok. \<exists>q. map_get (plugins s) (Name r) = Some q \<and> truthy (pl_enabled q)"
    and "map_get (plugins s) (Name r) = Some q" and "\<not> truthy (pl_enabled q)"
  shows "checkRequired nm (ok @ r # rest) s = (Inl (RequiredPluginNotEnabled nm r), s)"
  using assms(2,3) by (simp add: checkRequired_prefix [OF assms(1)])

lemma checkRequired_unregistered:
  assumes "\<forall>r \<in> set ok. \<exists>q. map_get (plugins s) (Name r) = Some q \<and> truthy (pl_enabled q)"
    and "map_get (plugins s) (Name r) = None"
  shows "checkRequired nm (ok @ r # rest) s = (Inl TypeError, s)"
  using assms(2) by (simp add: checkRequired_prefix [OF assms(1)])

lemma enable_install_throws:
  assumes "map_get (plugins s) (Name nm) = Some p"
    and "\<forall>r \<in> set (requiredPluginsOf H p).
           \<exists>q. map_get (plugins s) (Name r) = Some q \<and> truthy (pl_enabled q)"
    and "hookThrows H Install p"
  shows "enable H nm s =
     (Inl (HookFailure Install p),
      s\<lparr>store := map (\<lambda>r. if matches \<lparr>f_name = nm, f_appName = appName H, f_builtIn = None\<rparr> r
                          then r\<lparr>pd_enabled := Some True\<rparr> else r) (store s),
        trace := trace s @
          [DbUpdate \<lparr>f_name = nm, f_appName = appName H, f_builtIn = None\<rparr> [SetEnabled True],
           HookCall Install p]\<rparr>)"
proof -
  have req: "checkRequired nm (requiredPluginsOf H p) s = (Inr (), s)"
    using assms(2) by (rule checkRequired_ok)
  show ?thesis
    using assms(1,3) by (simp add: enable_def step_defs req apply_values_def)
qed

subsection \<open>Suspended calls\<close>

lemma run_on_turn: "run_job (on_turn m k) = await m (\<lambda>x. run_job (k x))"
  by (auto simp: on_turn_def await_def fun_eq_iff split: prod.splits sum.splits)

lemma run_fulfilled: "run_job fulfilled = ret ()"
  by (simp add: fulfilled_def ret_def)

lemma run_load_job: "run_job (load_job H p) = load H p"
  by (simp add: load_job_def load_def run_on_turn run_fulfilled)
     (simp add: await_def ret_def emitAsync_def fun_eq_iff record_action_def split: prod.splits sum.splits)

lemma run_enable_job: "run_started (enable_job H nm) = enable H nm"
  by (auto simp: run_started_def enable_job_def enable_def sync_def waiting_def run_on_turn
      run_load_job await_def getPluginInstance_def fun_eq_iff
      split: prod.splits sum.splits option.splits)

lemma run_disable_job: "run_started (disable_job H nm) = disable H nm"
  by (auto simp: run_started_def disable_job_def disable_def sync_def waiting_def run_on_turn
      run_fulfilled await_def ret_def throw_def getPluginInstance_def emitAsync_def
      record_action_def fun_eq_iff
      split: prod.splits sum.splits option.splits)

lemma run_remove_job: "run_started (remove_job H nm) = remove_plugin H nm"
  by (auto simp: run_started_def remove_job_def remove_plugin_def sync_def waiting_def
      run_on_turn run_fulfilled await_def ret_def throw_def getPluginInstance_def
      removePluginPackage_def record_action_def fun_eq_iff
      split: prod.splits sum.splits option.splits)

lemma run_addByLocalPath_job:
  "await (addByLocalPath_check H localPath) (\<lambda>nv. run_job (addByLocalPath_job H data nv)) s =
   (case addByLocalPath H localPath data s of (r, s') \<Rightarrow> (map_sum id (\<lambda>_. ()) r, s'))"
  by (auto simp: addByLocalPath_check_def addByLocalPath_job_def addByLocalPath_def Let_def
      run_on_turn run_fulfilled await_def ret_def throw_def
      split: prod.splits sum.splits option.splits)

lemma awaitAll_settled: "awaitAll sched [Settled r] caught s = s"
  by (induction sched) auto

lemma awaitAll_single:
  "awaitAll sched [Pending t k] caught s =
   (case run_job (Pending t k) s of (r, s') \<Rightarrow> snd (note_rejection caught (Settled r) s'))"
proof (induction sched arbitrary: t k s)
  case Nil
  show ?case by (simp split: prod.splits)
next
  case (Cons i sched)
  show ?case
  proof (cases "i = 0")
    case False
    then show ?thesis using Cons by simp
  next
    case True
    show ?thesis
    proof (cases "k s")
      case (Settled r)
      then show ?thesis
        using True by (simp add: awaitAll_settled split: prod.splits)
    next
      case (Pending t' k')
      then show ?thesis
        using True Cons [of t' k' "t s"] by (simp add: note_rejection_def)
    qed
  qed
qed

lemma settle_single:
  "(case note_started [j] False s of (caught, s2) \<Rightarrow> awaitAll sched [j] caught s2) =
   catchError (run_job j s)"
proof (cases j)
  case (Settled r)
  then show ?thesis
    by (cases r) (auto simp: note_rejection_def catchError_def awaitAll_settled)
next
  case (Pending t k)
  then show ?thesis
    by (auto simp: note_rejection_def catchError_def awaitAll_single
        split: prod.splits sum.splits)
qed

lemma checkRequired_state: "snd (checkRequired nm rs s) = s"
  by (induction rs) (auto simp: ret_def split: option.splits)

lemma getPluginInstance_state: "snd (getPluginInstance nm s) = s"
  by (simp add: getPluginInstance_def split: option.splits)

lemma sync_state:
  "snd (m s) = s \<Longrightarrow> (\<And>x. snd (k x s) = s) \<Longrightarrow> snd (sync m k s) = s"
  by (cases "m s") (auto simp: sync_def split: sum.splits)

lemma startAll_pure:
  assumes "\<And>nm s. snd (call nm s) = s"
  shows "startAll call nms s = (map (\<lambda>nm. fst (call nm s)) nms, s)"
proof (induction nms)
  case Nil
  show ?case by simp
next
  case (Cons nm nms)
  obtain j where c: "call nm s = (j, s)"
    using assms [of nm s] by (cases "call nm s") simp
  then have "fst (call nm s) = j" by simp
  with c Cons show ?case by simp
qed

lemma startAll_length: "length (fst (startAll call nms s)) = length nms"
proof (induction nms arbitrary: s)
  case Nil
  show ?case by simp
next
  case (Cons nm nms)
  obtain j s1 where a: "call nm s = (j, s1)" by (cases "call nm s")
  obtain js s2 where b: "startAll call nms s1 = (js, s2)" by (cases "startAll call nms s1")
  from Cons [of s1] b have "length js = length nms" by simp
  with a b show ?case by simp
qed

lemma enable_job_state: "snd (enable_job H nm s) = s"
  unfolding enable_job_def
  by (intro sync_state getPluginInstance_state checkRequired_state) (simp add: waiting_def)

lemma disable_job_state: "snd (disable_job H nm s) = s"
  unfolding disable_job_def
  by (intro sync_state getPluginInstance_state) (simp add: waiting_def)

lemma remove_job_state: "snd (remove_job H nm s) = s"
  unfolding remove_job_def
  by (intro sync_state getPluginInstance_state) (simp add: waiting_def)

lemma dispatch_one:
  assumes "byCli C H method = Some call"
  shows "dispatch C H sched method (One nm) s =
     catchError (run_started (call nm) (s\<lparr>trace := trace s @ [LogCommand method (One nm)]\<rparr>))"
proof -
  let ?s0 = "s\<lparr>trace := trace s @ [LogCommand method (One nm)]\<rparr>"
  obtain j s1 where c: "call nm ?s0 = (j, s1)" by (cases "call nm ?s0")
  have "dispatch C H sched method (One nm) s =
      (case note_started [j] False s1 of (caught, s2) \<Rightarrow> awaitAll sched [j] caught s2)"
    using assms c by (simp add: dispatch_def doCliCommand_def names_of_def)
  also have "\<dots> = catchError (run_job j s1)"
    by (rule settle_single)
  also have "\<dots> = catchError (run_started (call nm) ?s0)"
    using c by (simp add: run_started_def)
  finally show ?thesis .
qed

subsection \<open>enable\<close>

text \<open>C1. The claim: for every registered plugin whose required plugins are all
  enabled, \<^verbatim>\<open>enable(n)\<close> persists \<^verbatim>\<open>enabled=true\<close> and then runs \<^verbatim>\<open>install\<close>,
  \<^verbatim>\<open>afterEnable\<close>, the event \<^verbatim>\<open>afterEnablePlugin\<close> and \<^verbatim>\<open>load\<close>, in that order. The
  code at the plugin \<^verbatim>\<open>foo\<close>, registered with \<^verbatim>\<open>enabled: false\<close> as \<^verbatim>\<open>addByNpm\<close> and
  \<^verbatim>\<open>addByLocalPath\<close> register it, with no required plugin and no failing hook: the
  record is updated, \<^verbatim>\<open>install\<close> and \<^verbatim>\<open>afterEnable\<close> run, the event is emitted, and
  the call returns without any call of the \<^verbatim>\<open>load\<close> hook. \<^verbatim>\<open>enable\<close> never sets the
  instance's \<^verbatim>\<open>enabled\<close>, so its step 6, \<^verbatim>\<open>this.load(pluginInstance)\<close>, returns at
  \<^verbatim>\<open>if (!pluginInstance.enabled) return\<close>.\<close>

theorem enable_skips_load_of_disabled_instance:
  "enable (demoHost [] []) ''foo''
     (demoState [(Name ''foo'', demoPlugin 1 ''foo'' False)] [demoRecord ''foo'' False False])
   = (Inr (),
      \<lparr>plugins = [(Name ''foo'', demoPlugin 1 ''foo'' False)],
       store = [demoRecord ''foo'' True False],
       tableExists = True,
       trace = [DbUpdate \<lparr>f_name = ''foo'', f_appName = ''main'', f_builtIn = None\<rparr>
                  [SetEnabled True],
                HookCall Install (demoPlugin 1 ''foo'' False),
                HookCall AfterEnable (demoPlugin 1 ''foo'' False),
                Emit (AfterEnablePlugin ''foo'')]\<rparr>)"
  by (simp add: enable_def step_defs demo_defs map_get_def load_def truthy_def
      matches_def apply_values_def)

text \<open>C2. The claim: \<^verbatim>\<open>enable(n)\<close> fails with RequiredPluginNotEnabled if and only if
  some required plugin does not map to an enabled instance. The code at the plugin
  \<^verbatim>\<open>foo\<close> that requires \<^verbatim>\<open>bar\<close>, with no plugin registered under \<^verbatim>\<open>bar\<close>: the call
  fails with a TypeError (\<^verbatim>\<open>requiredPlugin\<close> is \<^verbatim>\<open>undefined\<close>), before the record
  store is touched, and not with the error of the required-plugin check.\<close>

theorem enable_unregistered_requirement_TypeError:
  "enable (demoHost [''bar''] []) ''foo''
     (demoState [(Name ''foo'', demoPlugin 1 ''foo'' False)] [demoRecord ''foo'' False False])
   = (Inl TypeError,
      demoState [(Name ''foo'', demoPlugin 1 ''foo'' False)] [demoRecord ''foo'' False False])"
  by (simp add: enable_def step_defs demoHost_def demoState_def demoPlugin_def map_get_def)

text \<open>\<^verbatim>\<open>enable\<close> does not look at the current \<^verbatim>\<open>enabled\<close> flag. For a registered
  plugin whose instance is enabled and whose required plugins are all registered and
  enabled, with no failing hook or event handler: a first call and a second call both
  succeed; each makes the whole sequence of actions again (the record update,
  \<^verbatim>\<open>install\<close>, \<^verbatim>\<open>afterEnable\<close>, the event \<^verbatim>\<open>afterEnablePlugin\<close>, and the load with its
  two events); after the first call every record of the plugin has \<^verbatim>\<open>enabled=true\<close>,
  and the second call leaves the record store and the registry as they were.\<close>

lemma enable_again_reruns_hooks:
  assumes "map_get (plugins s) (Name nm) = Some p"
    and "truthy (pl_enabled p)"
    and "\<forall>r \<in> set (requiredPluginsOf H p).
           \<exists>q. map_get (plugins s) (Name r) = Some q \<and> truthy (pl_enabled q)"
    and "\<not> hookThrows H Install p" and "\<not> hookThrows H AfterEnable p"
    and "\<not> emitThrows H (AfterEnablePlugin nm)" and "loads_ok H p"
    and "enable H nm s = (r1, s1)" and "enable H nm s1 = (r2, s2)"
  shows "r1 = Inr () \<and> r2 = Inr () \<and>
     trace s1 = trace s @
       [DbUpdate \<lparr>f_name = nm, f_appName = appName H, f_builtIn = None\<rparr> [SetEnabled True],
        HookCall Install p, HookCall AfterEnable p, Emit (AfterEnablePlugin nm),
        Emit (BeforeLoadPlugin p), HookCall Load p, Emit (AfterLoadPlugin p)] \<and>
     trace s2 = trace s1 @
       [DbUpdate \<lparr>f_name = nm, f_appName = appName H, f_builtIn = None\<rparr> [SetEnabled True],
        HookCall Install p, HookCall AfterEnable p, Emit (AfterEnablePlugin nm),
        Emit (BeforeLoadPlugin p), HookCall Load p, Emit (AfterLoadPlugin p)] \<and>
     store s2 = store s1 \<and> plugins s2 = plugins s1 \<and>
     (\<forall>r \<in> set (store s1).
        matches \<lparr>f_name = nm, f_appName = appName H, f_builtIn = None\<rparr> r \<longrightarrow>
        pd_enabled r = Some True)"
proof -
  let ?f = "\<lparr>f_name = nm, f_appName = appName H, f_builtIn = None\<rparr>"
  let ?g = "\<lambda>r. if matches ?f r then r\<lparr>pd_enabled := Some True\<rparr> else r"
  have first: "enable H nm s = (Inr (), s\<lparr>store := map ?g (store s),
       trace := trace s @ [DbUpdate ?f [SetEnabled True], HookCall Install p,
         HookCall AfterEnable p, Emit (AfterEnablePlugin nm)] @ load_actions p\<rparr>)"
    using assms(1,3,4,5,6,7) by (intro enable_ok) simp_all
  with assms(8) have r1: "r1 = Inr ()" and s1: "s1 = s\<lparr>store := map ?g (store s),
       trace := trace s @ [DbUpdate ?f [SetEnabled True], HookCall Install p,
         HookCall AfterEnable p, Emit (AfterEnablePlugin nm)] @ load_actions p\<rparr>"
    by simp_all
  have reg: "plugins s1 = plugins s" by (simp add: s1)
  have second: "enable H nm s1 = (Inr (), s1\<lparr>store := map ?g (store s1),
       trace := trace s1 @ [DbUpdate ?f [SetEnabled True], HookCall Install p,
         HookCall AfterEnable p, Emit (AfterEnablePlugin nm)] @ load_actions p\<rparr>)"
    using assms(1,3,4,5,6,7) by (intro enable_ok) (simp_all add: reg)
  with assms(9) have r2: "r2 = Inr ()" and s2: "s2 = s1\<lparr>store := map ?g (store s1),
       trace := trace s1 @ [DbUpdate ?f [SetEnabled True], HookCall Install p,
         HookCall AfterEnable p, Emit (AfterEnablePlugin nm)] @ load_actions p\<rparr>"
    by simp_all
  have st1: "store s1 = map ?g (store s)" by (simp add: s1)
  have tr1: "trace s1 = trace s @ [DbUpdate ?f [SetEnabled True], HookCall Install p,
         HookCall AfterEnable p, Emit (AfterEnablePlugin nm)] @ load_actions p"
    by (simp add: s1)
  have idem: "map ?g (store s1) = store s1"
    unfolding st1 by (rule enable_store_idem)
  have on: "\<forall>r \<in> set (store s1). matches ?f r \<longrightarrow> pd_enabled r = Some True"
    unfolding st1 by (auto simp: matches_def)
  show ?thesis
    using r1 r2 on assms(2) tr1 by (simp add: s2 idem load_actions_def)
qed

text \<open>C10. The claim: \<^verbatim>\<open>enable\<close> makes no check of the current \<^verbatim>\<open>enabled\<close> state,
  and for a registered plugin whose \<^verbatim>\<open>enabled\<close> flag is already true a second
  \<^verbatim>\<open>enable(n)\<close> succeeds and runs the whole sequence again, \<^verbatim>\<open>load()\<close> included. The
  code on the state that \<^verbatim>\<open>addByLocalPath\<close> leaves for the package \<^verbatim>\<open>foo\<close>: the
  first call succeeds and sets the record to \<^verbatim>\<open>enabled=true\<close>; the second call
  succeeds, leaves the record store as it is and runs the update, \<^verbatim>\<open>install\<close>,
  \<^verbatim>\<open>afterEnable\<close> and the event again, but neither call runs the \<^verbatim>\<open>load\<close> hook.
  \<^verbatim>\<open>enable\<close> sets only the persisted flag; the instance keeps \<^verbatim>\<open>enabled: false\<close>, and
  \<^verbatim>\<open>load\<close> returns at its guard.\<close>

theorem enable_again_skips_load:
  "enable (demoHost [] []) ''foo'' demoAdded = (Inr (), demoEnabledOnce) \<and>
   store demoEnabledOnce = [demoLocalRecord\<lparr>pd_enabled := Some True\<rparr>] \<and>
   enable (demoHost [] []) ''foo'' demoEnabledOnce =
     (Inr (),
      demoEnabledOnce\<lparr>trace := trace demoEnabledOnce @
        [DbUpdate \<lparr>f_name = ''foo'', f_appName = ''main'', f_builtIn = None\<rparr> [SetEnabled True],
         HookCall Install (demoPlugin 1 ''foo'' False),
         HookCall AfterEnable (demoPlugin 1 ''foo'' False),
         Emit (AfterEnablePlugin ''foo'')]\<rparr>)"
  by (simp add: enable_def step_defs demo_defs map_get_def load_def truthy_def
      matches_def apply_values_def demoAdded_def demoEnabledOnce_def demoLocalRecord_def)

subsection \<open>disable and remove\<close>

text \<open>C3, as stated: for a plugin whose record has \<^verbatim>\<open>builtIn=true\<close>, \<^verbatim>\<open>disable\<close> and
  \<^verbatim>\<open>remove\<close> always fail with BuiltInProtected, whatever the rest of the state. It
  fails where the registry holds, under the name of such a record, an instance that
  was constructed without \<^verbatim>\<open>builtIn\<close>: both methods test the instance, not the
  record. \<^verbatim>\<open>disable\<close> succeeds and runs \<^verbatim>\<open>afterDisable\<close> and the event; \<^verbatim>\<open>remove\<close>
  succeeds, runs the \<^verbatim>\<open>remove\<close> hook, drops the instance and removes the package.
  Only the record stays, through the \<^verbatim>\<open>builtIn: false\<close> of both filters.\<close>

theorem builtIn_record_not_protected:
  "pd_builtIn (demoRecord ''foo'' True True) = Some True \<and>
   disable (demoHost [] []) ''foo''
     (demoState [(Name ''foo'', staticPlugin)] [demoRecord ''foo'' True True])
   = (Inr (),
      \<lparr>plugins = [(Name ''foo'', staticPlugin)], store = [demoRecord ''foo'' True True],
       tableExists = True,
       trace = [DbUpdate \<lparr>f_name = ''foo'', f_appName = ''main'', f_builtIn = Some False\<rparr>
                  [SetEnabled False],
                HookCall AfterDisable staticPlugin, Emit (AfterDisablePlugin ''foo'')]\<rparr>) \<and>
   remove_plugin (demoHost [] []) ''foo''
     (demoState [(Name ''foo'', staticPlugin)] [demoRecord ''foo'' True True])
   = (Inr (),
      \<lparr>plugins = [], store = [demoRecord ''foo'' True True],
       tableExists = True,
       trace = [HookCall Remove staticPlugin,
                DbDestroy \<lparr>f_name = ''foo'', f_appName = ''main'', f_builtIn = Some False\<rparr>,
                RemovePackage ''foo'']\<rparr>)"
  by (simp add: disable_def remove_plugin_def removePluginPackage_def step_defs demo_defs
      staticPlugin_def map_get_def map_delete_def truthy_def matches_def apply_values_def)

text \<open>C3, amended: for every plugin name whose registered instance has
  \<^verbatim>\<open>builtIn=true\<close>, \<^verbatim>\<open>disable\<close> and \<^verbatim>\<open>remove\<close> fail with BuiltInProtected whatever
  the rest of the state, and the state returned with the failure is the state before
  the call: no hook has run, the record store and the registry are as they were.\<close>

theorem builtIn_instance_protected:
  assumes "map_get (plugins s) (Name nm) = Some p" and "truthy (pl_builtIn p)"
  shows "disable H nm s = (Inl (BuiltInProtected nm), s) \<and>
         remove_plugin H nm s = (Inl (BuiltInProtected nm), s)"
  using assms
  by (simp add: disable_def remove_plugin_def getPluginInstance_def await_def throw_def)

theorem builtIn_instance_protected_witness:
  "disable (demoHost [] []) ''foo'' demoBuiltIn = (Inl (BuiltInProtected ''foo''), demoBuiltIn) \<and>
   remove_plugin (demoHost [] []) ''foo'' demoBuiltIn
     = (Inl (BuiltInProtected ''foo''), demoBuiltIn)"
proof -
  let ?p = "staticPlugin\<lparr>pl_builtIn := Some True\<rparr>"
  have h1: "map_get (plugins demoBuiltIn) (Name ''foo'') = Some ?p"
    by (simp add: demoBuiltIn_def demoState_def map_get_def)
  have h2: "truthy (pl_builtIn ?p)"
    by (simp add: truthy_def)
  from builtIn_instance_protected [OF h1 h2, of "demoHost [] []"] show ?thesis .
qed

subsection \<open>loadAll\<close>

text \<open>C5. \<^verbatim>\<open>loadAll\<close> loads the registered instances one after the other in the
  order of the registry: when no load fails, its actions are the loads of all
  instances in that order. When the instances before \<open>B\<close> load without failure (or are
  disabled), \<open>B\<close> is enabled and its \<^verbatim>\<open>load\<close> throws, the pass fails with that error
  and its actions are the loads of the instances before \<open>B\<close>, in order, then the
  event before \<open>B\<close>'s load and \<open>B\<close>'s load: nothing is called for any instance
  registered after \<open>B\<close>. For the registry A, B, C of the claim, \<^verbatim>\<open>C.load()\<close> is never
  invoked.\<close>

theorem loadAll_stops_at_failing_load:
  "((\<forall>p \<in> set (map snd (plugins s)). truthy (pl_enabled p) \<longrightarrow> loads_ok H p) \<longrightarrow>
      loadAll H s =
        (Inr (), s\<lparr>trace := trace s @ concat (map load_actions (map snd (plugins s)))\<rparr>)) \<and>
   (plugins s = before @ (kb, B) # after \<and>
    (\<forall>p \<in> set (map snd before). truthy (pl_enabled p) \<longrightarrow> loads_ok H p) \<and>
    truthy (pl_enabled B) \<and> \<not> emitThrows H (BeforeLoadPlugin B) \<and> hookThrows H Load B \<longrightarrow>
      loadAll H s =
        (Inl (HookFailure Load B),
         s\<lparr>trace := trace s @ concat (map load_actions (map snd before)) @
                     [Emit (BeforeLoadPlugin B), HookCall Load B]\<rparr>))"
proof (intro conjI impI)
  assume "\<forall>p \<in> set (map snd (plugins s)). truthy (pl_enabled p) \<longrightarrow> loads_ok H p"
  then have "loadEach H (map snd (plugins s) @ []) s =
      loadEach H [] (s\<lparr>trace := trace s @ concat (map load_actions (map snd (plugins s)))\<rparr>)"
    by (rule loadEach_prefix)
  then show "loadAll H s =
      (Inr (), s\<lparr>trace := trace s @ concat (map load_actions (map snd (plugins s)))\<rparr>)"
    by (simp add: loadAll_def ret_def)
next
  assume a: "plugins s = before @ (kb, B) # after \<and>
    (\<forall>p \<in> set (map snd before). truthy (pl_enabled p) \<longrightarrow> loads_ok H p) \<and>
    truthy (pl_enabled B) \<and> \<not> emitThrows H (BeforeLoadPlugin B) \<and> hookThrows H Load B"
  have "loadAll H s = loadEach H (map snd before @ B # map snd after) s"
    using a by (simp add: loadAll_def)
  also have "\<dots> = loadEach H (B # map snd after)
      (s\<lparr>trace := trace s @ concat (map load_actions (map snd before))\<rparr>)"
    using a by (intro loadEach_prefix) simp
  also have "\<dots> = (Inl (HookFailure Load B),
      s\<lparr>trace := trace s @ concat (map load_actions (map snd before)) @
                  [Emit (BeforeLoadPlugin B), HookCall Load B]\<rparr>)"
    using a by (simp add: await_def load_throws)
  finally show "loadAll H s = (Inl (HookFailure Load B),
      s\<lparr>trace := trace s @ concat (map load_actions (map snd before)) @
                  [Emit (BeforeLoadPlugin B), HookCall Load B]\<rparr>)" .
qed

theorem loadAll_stops_at_failing_load_witness:
  "loadAll (demoHost [] []) demoTwo =
     (Inr (),
      demoTwo\<lparr>trace :=
        [Emit (BeforeLoadPlugin (demoPlugin 2 ''bar'' True)),
         HookCall Load (demoPlugin 2 ''bar'' True),
         Emit (AfterLoadPlugin (demoPlugin 2 ''bar'' True)),
         Emit (BeforeLoadPlugin (demoPlugin 1 ''foo'' True)),
         HookCall Load (demoPlugin 1 ''foo'' True),
         Emit (AfterLoadPlugin (demoPlugin 1 ''foo'' True))]\<rparr>) \<and>
   loadAll (demoHost [] [(Load, 2)]) demoThree =
     (Inl (HookFailure Load (demoPlugin 2 ''bar'' True)),
      demoThree\<lparr>trace :=
        [Emit (BeforeLoadPlugin (demoPlugin 1 ''foo'' True)),
         HookCall Load (demoPlugin 1 ''foo'' True),
         Emit (AfterLoadPlugin (demoPlugin 1 ''foo'' True)),
         Emit (BeforeLoadPlugin (demoPlugin 2 ''bar'' True)),
         HookCall Load (demoPlugin 2 ''bar'' True)]\<rparr>) \<and>
   HookCall Load (demoPlugin 3 ''baz'' True)
     \<notin> set (trace (snd (loadAll (demoHost [] [(Load, 2)]) demoThree)))"
proof -
  let ?H = "demoHost [] [(Load, 2)]"
  let ?A = "demoPlugin 1 ''foo'' True"
  let ?B = "demoPlugin 2 ''bar'' True"
  let ?C = "demoPlugin 3 ''baz'' True"
  have ok: "\<forall>p \<in> set (map snd (plugins demoTwo)).
      truthy (pl_enabled p) \<longrightarrow> loads_ok (demoHost [] []) p"
    by (simp add: loads_ok_def demoHost_def)
  have two: "plugins demoTwo = [(Name ''bar'', ?B), (Name ''foo'', ?A)]" "trace demoTwo = []"
    by (simp_all add: demoTwo_def demoState_def)
  have h: "plugins demoThree = [(Name ''foo'', ?A)] @ (Name ''bar'', ?B) # [(Name ''baz'', ?C)] \<and>
    (\<forall>p \<in> set (map snd [(Name ''foo'', ?A)]). truthy (pl_enabled p) \<longrightarrow> loads_ok ?H p) \<and>
    truthy (pl_enabled ?B) \<and> \<not> emitThrows ?H (BeforeLoadPlugin ?B) \<and> hookThrows ?H Load ?B"
    by (simp add: demoThree_def demoState_def loads_ok_def demoHost_def demoPlugin_def truthy_def)
  have t0: "trace demoThree = []"
    by (simp add: demoThree_def demoState_def)
  have ne: "?C \<noteq> ?A" "?C \<noteq> ?B"
    by (simp_all add: demoPlugin_def)
  have good: "loadAll (demoHost [] []) demoTwo =
      (Inr (), demoTwo\<lparr>trace := [Emit (BeforeLoadPlugin ?B), HookCall Load ?B,
         Emit (AfterLoadPlugin ?B), Emit (BeforeLoadPlugin ?A), HookCall Load ?A,
         Emit (AfterLoadPlugin ?A)]\<rparr>)"
    using loadAll_stops_at_failing_load [of demoTwo "demoHost [] []", THEN conjunct1, THEN mp, OF ok]
    by (simp add: two load_actions_def truthy_def demoPlugin_def)
  have bad: "loadAll ?H demoThree =
      (Inl (HookFailure Load ?B), demoThree\<lparr>trace := [Emit (BeforeLoadPlugin ?A),
         HookCall Load ?A, Emit (AfterLoadPlugin ?A), Emit (BeforeLoadPlugin ?B),
         HookCall Load ?B]\<rparr>)"
    using loadAll_stops_at_failing_load [of demoThree ?H "[(Name ''foo'', ?A)]" "Name ''bar''" ?B
        "[(Name ''baz'', ?C)]", THEN conjunct2, THEN mp, OF h]
    by (simp add: t0 load_actions_def truthy_def demoPlugin_def)
  from good bad ne show ?thesis
    by simp
qed

subsection \<open>addByLocalPath\<close>

text \<open>C6. When a call of \<^verbatim>\<open>addByLocalPath\<close> has succeeded, a second call with a path
  that resolves to the same package name fails with DuplicatePlugin, and the state
  returned with the failure is the state before the second call: the test of the
  registry precedes the creation of the record, so no record is created and no
  instance is replaced.\<close>

theorem addByLocalPath_twice_duplicate:
  assumes "addByLocalPath H p1 d1 s = (Inr res, s1)"
    and "packageJson H p1 = Some (nm, v1)"
    and "packageJson H p2 = Some (nm, v2)"
  shows "addByLocalPath H p2 d2 s1 = (Inl (DuplicatePlugin nm), s1)"
  using addByLocalPath_registers [OF assms(1,2)] assms(3)
  by (simp add: addByLocalPath_def Let_def)

theorem addByLocalPath_twice_duplicate_witness:
  "addByLocalPath (demoHost [] []) ''/plugins/foo'' noLocalData (demoState [] [])
     = (Inr demoLocalRecord, demoAdded) \<and>
   addByLocalPath (demoHost [] []) ''/tmp/foo'' noLocalData demoAdded
     = (Inl (DuplicatePlugin ''foo''), demoAdded)"
proof -
  let ?H = "demoHost [] []"
  have first: "addByLocalPath ?H ''/plugins/foo'' noLocalData (demoState [] [])
      = (Inr demoLocalRecord, demoAdded)"
    by (simp add: addByLocalPath_def setDatabasePlugin_def require_def setPluginInstance_def
        repo_create_def instance_key_def truthy_str_def map_has_def step_defs demo_defs Let_def
        noLocalData_def demoLocalRecord_def demoAdded_def)
  have p1: "packageJson ?H ''/plugins/foo'' = Some (''foo'', ''1.0.0'')"
    by (simp add: demoHost_def)
  have p2: "packageJson ?H ''/tmp/foo'' = Some (''foo'', ''1.0.0'')"
    by (simp add: demoHost_def)
  from addByLocalPath_twice_duplicate [OF first p1 p2, of noLocalData] first
  show ?thesis by simp
qed

subsection \<open>addByNpm\<close>

text \<open>C9. When \<^verbatim>\<open>addByNpm\<close> has succeeded (which it does only for a name that was
  not registered), a following \<^verbatim>\<open>list()\<close> includes a record with that name,
  \<^verbatim>\<open>installed=true\<close> and \<^verbatim>\<open>enabled=false\<close>. The record was created with
  \<^verbatim>\<open>enabled=false\<close> and \<^verbatim>\<open>installed=false\<close>; the actions of the call are the
  creation, the resolution of the package, one update that sets the version, the
  client URL and \<^verbatim>\<open>installed=true\<close>, the construction of the instance and
  \<^verbatim>\<open>afterAdd\<close>: no action of it sets \<^verbatim>\<open>enabled\<close>.\<close>

theorem addByNpm_then_list:
  assumes "addByNpm H data s = (Inr res, s1)"
    and "list_plugins H s1 = (Inr items, s2)"
  shows "(\<exists>item \<in> set (map fst items).
            pd_name item = Some (d_name data) \<and> pd_installed item = Some True \<and>
            pd_enabled item = Some False) \<and>
         \<not> map_has (plugins s) (Name (d_name data)) \<and>
         pd_enabled res = Some False \<and> pd_installed res = Some False \<and>
         (\<exists>v inst. trace s1 = trace s @
            [DbCreate res, NpmInstall (d_name data) (d_registry data) None,
             DbUpdate \<lparr>f_name = d_name data, f_appName = appName H, f_builtIn = None\<rparr>
               [SetVersion (Some v), SetClientUrl (clientStaticUrl H (d_name data)),
                SetInstalled True],
             Construct (Name (d_name data)) inst, HookCall AfterAdd inst])"
proof -
  let ?f = "\<lparr>f_name = d_name data, f_appName = appName H, f_builtIn = None\<rparr>"
  from addByNpm_success [OF assms(1)] obtain v c where
    res: "res = noData\<lparr>pd_name := Some (d_name data),
                 pd_registry := d_registry data, pd_appName := Some (appName H),
                 pd_enabled := Some False, pd_isOfficial := d_isOfficial data,
                 pd_installed := Some False, pd_builtIn := d_builtIn data\<rparr>"
    and fresh: "\<not> map_has (plugins s) (Name (d_name data))"
    and s1: "s1 = s\<lparr>plugins := map_set (plugins s) (Name (d_name data))
                \<lparr>pl_class = c, pl_name = Some (d_name data), pl_enabled = Some False,
                 pl_builtIn = d_builtIn data\<rparr>,
            store := map (\<lambda>r. if matches ?f r
                   then r\<lparr>pd_version := Some v, pd_clientUrl := Some (clientStaticUrl H (d_name data)),
                          pd_installed := Some True\<rparr> else r) (store s @ [res]),
            trace := trace s @
              [DbCreate res, NpmInstall (d_name data) (d_registry data) None,
               DbUpdate ?f
                 [SetVersion (Some v), SetClientUrl (clientStaticUrl H (d_name data)), SetInstalled True],
               Construct (Name (d_name data))
                 \<lparr>pl_class = c, pl_name = Some (d_name data), pl_enabled = Some False,
                  pl_builtIn = d_builtIn data\<rparr>,
               HookCall AfterAdd
                 \<lparr>pl_class = c, pl_name = Some (d_name data), pl_enabled = Some False,
                  pl_builtIn = d_builtIn data\<rparr>]\<rparr>"
    by blast
  let ?item = "res\<lparr>pd_version := Some v, pd_clientUrl := Some (clientStaticUrl H (d_name data)),
                    pd_installed := Some True\<rparr>"
  have m: "matches ?f res"
    by (simp add: res matches_def noData_def)
  have "?item \<in> set (store s1)"
    using m by (simp add: s1)
  moreover have "pd_appName ?item = Some (appName H)"
    by (simp add: res)
  ultimately have "?item \<in> set (repo_list s1 (appName H))"
    by (simp add: repo_list_def)
  moreover have "map fst items = repo_list s1 (appName H)"
    using assms(2) by (auto simp: list_plugins_def comp_def Let_def split: if_splits)
  ultimately have "?item \<in> set (map fst items)"
    by simp
  moreover have "pd_name ?item = Some (d_name data) \<and> pd_installed ?item = Some True \<and>
      pd_enabled ?item = Some False"
    by (simp add: res)
  ultimately have ex: "\<exists>item \<in> set (map fst items).
      pd_name item = Some (d_name data) \<and> pd_installed item = Some True \<and>
      pd_enabled item = Some False"
    by blast
  have tr: "\<exists>v inst. trace s1 = trace s @
            [DbCreate res, NpmInstall (d_name data) (d_registry data) None,
             DbUpdate ?f [SetVersion (Some v), SetClientUrl (clientStaticUrl H (d_name data)),
                SetInstalled True],
             Construct (Name (d_name data)) inst, HookCall AfterAdd inst]"
    unfolding s1 by (intro exI) simp
  have "pd_enabled res = Some False \<and> pd_installed res = Some False"
    by (simp add: res)
  with ex fresh tr show ?thesis by blast
qed

theorem addByNpm_then_list_witness:
  "addByNpm (demoHost [] []) demoNpmData (demoState [] []) = (Inr demoNpmCreated, demoNpmAdded) \<and>
   list_plugins (demoHost [] []) demoNpmAdded = (Inr [(demoNpmInstalled, [])], demoNpmAdded) \<and>
   (\<exists>item \<in> set (map fst [(demoNpmInstalled, [])]).
      pd_name item = Some ''foo'' \<and> pd_installed item = Some True \<and> pd_enabled item = Some False)"
proof -
  let ?H = "demoHost [] []"
  have first: "addByNpm ?H demoNpmData (demoState [] []) = (Inr demoNpmCreated, demoNpmAdded)"
    by (simp add: addByNpm_def addOrUpdatePluginByNpm_def setDatabasePlugin_def require_def
        setPluginInstance_def repo_create_def instance_key_def truthy_str_def map_has_def
        step_defs demo_defs Let_def matches_def apply_values_def
        demoNpmData_def demoNpmCreated_def demoNpmInstalled_def demoNpmPlugin_def
        demoNpmAdded_def)
  have second: "list_plugins ?H demoNpmAdded = (Inr [(demoNpmInstalled, [])], demoNpmAdded)"
    by (simp add: list_plugins_def repo_list_def demoNpmAdded_def demoNpmInstalled_def
        demoNpmCreated_def demoHost_def noData_def Let_def)
  have nm: "d_name demoNpmData = ''foo''"
    by (simp add: demoNpmData_def)
  from addByNpm_then_list [OF first second] first second nm show ?thesis
    by simp
qed

subsection \<open>upgradeByNpm\<close>

text \<open>C7. \<^verbatim>\<open>upgradeByNpm(n)\<close> fails with PluginNotFound, leaving the state as it
  was, when the store has no record for \<^verbatim>\<open>(n, appName)\<close>. When it has one and no
  step fails, the call resolves the package again only when \<^verbatim>\<open>getNewVersion\<close> gave
  a version, writes that result to the record's version, constructs the instance
  from the record read at the start and registers it under the name, runs
  \<^verbatim>\<open>afterAdd\<close>, and runs \<^verbatim>\<open>load\<close> exactly when that record has \<^verbatim>\<open>enabled=true\<close>.\<close>

theorem upgradeByNpm_steps:
  "(repo_findOne s \<lparr>f_name = nm, f_appName = appName H, f_builtIn = None\<rparr> = None \<longrightarrow>
      upgradeByNpm H nm s = (Inl (PluginNotFound nm), s)) \<and>
   (\<forall>pd latest c inst.
      repo_findOne s \<lparr>f_name = nm, f_appName = appName H, f_builtIn = None\<rparr> = Some pd \<and>
      newVersion H pd = Some latest \<and>
      (truthy_str latest \<longrightarrow> npm H nm (pd_registry pd) latest \<noteq> None) \<and>
      modules H nm = Some (ClassRef c) \<and> nm \<noteq> [] \<and>
      inst = \<lparr>pl_class = c, pl_name = Some nm, pl_enabled = pd_enabled pd,
              pl_builtIn = pd_builtIn pd\<rparr> \<and>
      \<not> hookThrows H AfterAdd inst \<and>
      (truthy (pd_enabled pd) \<longrightarrow> \<not> hookThrows H Load inst) \<longrightarrow>
      upgradeByNpm H nm s =
        (Inr (),
         s\<lparr>plugins := map_set (plugins s) (Name nm) inst,
           store := map (\<lambda>r. if matches \<lparr>f_name = nm, f_appName = appName H, f_builtIn = None\<rparr> r
                             then r\<lparr>pd_version := latest\<rparr> else r) (store s),
           trace := trace s @
             (if truthy_str latest then [NpmInstall nm (pd_registry pd) latest] else []) @
             [DbUpdate \<lparr>f_name = nm, f_appName = appName H, f_builtIn = None\<rparr>
                [SetVersion latest],
              Construct (Name nm) inst, HookCall AfterAdd inst] @
             (if truthy (pd_enabled pd) then [HookCall Load inst] else [])\<rparr>))"
proof (intro conjI impI allI)
  assume "repo_findOne s \<lparr>f_name = nm, f_appName = appName H, f_builtIn = None\<rparr> = None"
  then show "upgradeByNpm H nm s = (Inl (PluginNotFound nm), s)"
    by (simp add: upgradeByNpm_def getPluginData_def await_def)
next
  fix pd latest c inst
  let ?f = "\<lparr>f_name = nm, f_appName = appName H, f_builtIn = None\<rparr>"
  assume a: "repo_findOne s ?f = Some pd \<and>
      newVersion H pd = Some latest \<and>
      (truthy_str latest \<longrightarrow> npm H nm (pd_registry pd) latest \<noteq> None) \<and>
      modules H nm = Some (ClassRef c) \<and> nm \<noteq> [] \<and>
      inst = \<lparr>pl_class = c, pl_name = Some nm, pl_enabled = pd_enabled pd,
              pl_builtIn = pd_builtIn pd\<rparr> \<and>
      \<not> hookThrows H AfterAdd inst \<and>
      (truthy (pd_enabled pd) \<longrightarrow> \<not> hookThrows H Load inst)"
  then have "matches ?f pd"
    by (auto simp: repo_findOne_def dest: find_matches)
  then have nm: "pd_name pd = Some nm"
    by (simp add: matches_def)
  have db: "setDatabasePlugin H pd s' =
      (Inr inst, s'\<lparr>plugins := map_set (plugins s') (Name nm) inst,
                    trace := trace s' @ [Construct (Name nm) inst]\<rparr>)" for s'
    using a nm
    by (simp add: setDatabasePlugin_def require_def setPluginInstance_def await_def ret_def
        instance_key_def truthy_str_def Let_def)
  show "upgradeByNpm H nm s =
        (Inr (),
         s\<lparr>plugins := map_set (plugins s) (Name nm) inst,
           store := map (\<lambda>r. if matches ?f r then r\<lparr>pd_version := latest\<rparr> else r) (store s),
           trace := trace s @
             (if truthy_str latest then [NpmInstall nm (pd_registry pd) latest] else []) @
             [DbUpdate ?f [SetVersion latest],
              Construct (Name nm) inst, HookCall AfterAdd inst] @
             (if truthy (pd_enabled pd) then [HookCall Load inst] else [])\<rparr>)"
    using a
    by (auto simp: upgradeByNpm_def getPluginData_def getNewVersion_def
        addOrUpdatePluginByNpm_def db step_defs apply_values_def)
qed

theorem upgradeByNpm_steps_witness:
  "upgradeByNpm (demoHost [] []) ''foo'' (demoState [] [])
     = (Inl (PluginNotFound ''foo''), demoState [] []) \<and>
   upgradeByNpm (demoHost [] []) ''foo'' demoUpgradable
     = (Inr (),
        \<lparr>plugins = [(Name ''foo'', demoPlugin 1 ''foo'' True)],
         store = [(demoRecord ''foo'' True False)\<lparr>pd_version := Some ''1.1.0''\<rparr>],
         tableExists = True,
         trace = [NpmInstall ''foo'' None (Some ''1.1.0''),
                  DbUpdate \<lparr>f_name = ''foo'', f_appName = ''main'', f_builtIn = None\<rparr>
                    [SetVersion (Some ''1.1.0'')],
                  Construct (Name ''foo'') (demoPlugin 1 ''foo'' True),
                  HookCall AfterAdd (demoPlugin 1 ''foo'' True),
                  HookCall Load (demoPlugin 1 ''foo'' True)]\<rparr>)"
proof -
  let ?H = "demoHost [] []"
  let ?f = "\<lparr>f_name = ''foo'', f_appName = appName ?H, f_builtIn = None\<rparr>"
  let ?pd = "demoRecord ''foo'' True False"
  let ?inst = "demoPlugin 1 ''foo'' True"
  have none: "repo_findOne (demoState [] []) ?f = None"
    by (simp add: repo_findOne_def demoState_def)
  have absent: "upgradeByNpm ?H ''foo'' (demoState [] []) = (Inl (PluginNotFound ''foo''), demoState [] [])"
    using upgradeByNpm_steps [of "demoState [] []" "''foo''" ?H] none by blast
  have found: "repo_findOne demoUpgradable ?f = Some ?pd \<and>
      newVersion ?H ?pd = Some (Some ''1.1.0'') \<and>
      (truthy_str (Some ''1.1.0'') \<longrightarrow>
         npm ?H ''foo'' (pd_registry ?pd) (Some ''1.1.0'') \<noteq> None) \<and>
      modules ?H ''foo'' = Some (ClassRef 1) \<and> ''foo'' \<noteq> [] \<and>
      ?inst = \<lparr>pl_class = 1, pl_name = Some ''foo'', pl_enabled = pd_enabled ?pd,
              pl_builtIn = pd_builtIn ?pd\<rparr> \<and>
      \<not> hookThrows ?H AfterAdd ?inst \<and>
      (truthy (pd_enabled ?pd) \<longrightarrow> \<not> hookThrows ?H Load ?inst)"
    by (simp add: repo_findOne_def demoUpgradable_def demo_defs matches_def)
  have present: "upgradeByNpm ?H ''foo'' demoUpgradable
     = (Inr (),
        \<lparr>plugins = [(Name ''foo'', ?inst)],
         store = [?pd\<lparr>pd_version := Some ''1.1.0''\<rparr>],
         tableExists = True,
         trace = [NpmInstall ''foo'' None (Some ''1.1.0''),
                  DbUpdate \<lparr>f_name = ''foo'', f_appName = ''main'', f_builtIn = None\<rparr>
                    [SetVersion (Some ''1.1.0'')],
                  Construct (Name ''foo'') ?inst, HookCall AfterAdd ?inst,
                  HookCall Load ?inst]\<rparr>)"
    using upgradeByNpm_steps [of demoUpgradable "''foo''" ?H, THEN conjunct2, rule_format, OF found]
    by (simp add: demo_defs truthy_def truthy_str_def demoUpgradable_def matches_def)
  from absent present show ?thesis by simp
qed

subsection \<open>The beforeLoad handler\<close>

text \<open>C4. The claim: in the beforeLoad handler the registry is populated from every
  persisted record before the pass of \<^verbatim>\<open>beforeLoad()\<close> over the instances begins, and
  \<^verbatim>\<open>beforeLoad()\<close> runs on every registered instance. The code on a manager with no
  static plugin, whose table exists and holds one record \<^verbatim>\<open>foo\<close>, for an ordinary
  start: whatever the schedule, the handler returns with no \<^verbatim>\<open>beforeLoad\<close> called,
  the registry still empty, and the record still waiting to be registered. The
  promise of \<^verbatim>\<open>initDatabasePlugins()\<close> is stored, not awaited, and the first
  \<^verbatim>\<open>next()\<close> of the loop finds the registry empty.\<close>

theorem beforeLoad_pass_precedes_population:
  "beforeLoadHandler H sched \<lparr>o_method = None, o_reload = None\<rparr>
     \<lparr>plugins = [],
      store = [noData\<lparr>pd_name := Some ''foo'', pd_appName := Some (appName H), pd_enabled := Some True\<rparr>],
      tableExists = True, trace = []\<rparr>
   = (Inr (),
      [noData\<lparr>pd_name := Some ''foo'', pd_appName := Some (appName H), pd_enabled := Some True\<rparr>],
      \<lparr>plugins = [],
       store = [noData\<lparr>pd_name := Some ''foo'', pd_appName := Some (appName H), pd_enabled := Some True\<rparr>],
       tableExists = True, trace = []\<rparr>)"
  by (simp add: beforeLoadHandler_def fetch_def repo_list_def noData_def)

theorem beforeLoad_pass_precedes_population_witness:
  "beforeLoadHandler (demoHost [] []) [True, False] \<lparr>o_method = None, o_reload = None\<rparr>
     \<lparr>plugins = [],
      store = [noData\<lparr>pd_name := Some ''foo'', pd_appName := Some ''main'', pd_enabled := Some True\<rparr>],
      tableExists = True, trace = []\<rparr>
   = (Inr (),
      [noData\<lparr>pd_name := Some ''foo'', pd_appName := Some ''main'', pd_enabled := Some True\<rparr>],
      \<lparr>plugins = [],
       store = [noData\<lparr>pd_name := Some ''foo'', pd_appName := Some ''main'', pd_enabled := Some True\<rparr>],
       tableExists = True, trace = []\<rparr>)"
  using beforeLoad_pass_precedes_population [of "demoHost [] []" "[True, False]"]
  by (simp add: demoHost_def)

subsection \<open>The control channel\<close>

text \<open>C8. For the control client and the server's handler, whatever the schedule:
  a command with method \<^verbatim>\<open>create\<close> is dispatched in the calling process and the
  client does nothing on the socket; for every other method the client tries to
  connect, and when the connection succeeds it writes the message and ends the
  connection, leaving its own manager as it was; when the connection fails the
  client dispatches the same method over the same names, and the state it reaches is
  the state the server's handler reaches for that message from the same state. The
  dispatch starts one call for each plugin name (for \<^verbatim>\<open>enable\<close>, \<^verbatim>\<open>disable\<close> and
  \<^verbatim>\<open>remove\<close>: the calls of that method, one per name, in the order of the names), and
  for a command with one name the server's handler does what one call of \<^verbatim>\<open>enable\<close>,
  \<^verbatim>\<open>disable\<close> or \<^verbatim>\<open>remove\<close> inside the \<^verbatim>\<open>try\<close> block does.\<close>

theorem control_channel:
  "(m_method data = ''create'' \<longrightarrow>
      clientWrite C H sched data s = ([], dispatch C H sched ''create'' (m_plugins data) s)) \<and>
   (m_method data \<noteq> ''create'' \<and> connects C \<longrightarrow>
      clientWrite C H sched data s = ([SocketConnect, SocketWrite data, SocketEnd], s)) \<and>
   (m_method data \<noteq> ''create'' \<and> \<not> connects C \<longrightarrow>
      clientWrite C H sched data s =
        ([SocketConnect, SocketError], serverOnData C H sched data s)) \<and>
   (\<forall>call. byCli C H (m_method data) = Some call \<longrightarrow>
      (\<exists>jobs s'. doCliCommand C H (m_method data) (m_plugins data) s = (Promised jobs, s') \<and>
         length jobs = length (names_of (m_plugins data)))) \<and>
   doCliCommand C H ''enable'' ps s =
     (Promised (map (\<lambda>nm. fst (enable_job H nm s)) (names_of ps)), s) \<and>
   doCliCommand C H ''disable'' ps s =
     (Promised (map (\<lambda>nm. fst (disable_job H nm s)) (names_of ps)), s) \<and>
   doCliCommand C H ''remove'' ps s =
     (Promised (map (\<lambda>nm. fst (remove_job H nm s)) (names_of ps)), s) \<and>
   serverOnData C H sched \<lparr>m_method = ''enable'', m_plugins = One nm\<rparr> s =
     catchError (enable H nm (s\<lparr>trace := trace s @ [LogCommand ''enable'' (One nm)]\<rparr>)) \<and>
   serverOnData C H sched \<lparr>m_method = ''disable'', m_plugins = One nm\<rparr> s =
     catchError (disable H nm (s\<lparr>trace := trace s @ [LogCommand ''disable'' (One nm)]\<rparr>)) \<and>
   serverOnData C H sched \<lparr>m_method = ''remove'', m_plugins = One nm\<rparr> s =
     catchError (remove_plugin H nm (s\<lparr>trace := trace s @ [LogCommand ''remove'' (One nm)]\<rparr>))"
proof (intro conjI impI allI)
  assume "m_method data = ''create''"
  then show "clientWrite C H sched data s = ([], dispatch C H sched ''create'' (m_plugins data) s)"
    by (simp add: clientWrite_def)
next
  assume "m_method data \<noteq> ''create'' \<and> connects C"
  then show "clientWrite C H sched data s = ([SocketConnect, SocketWrite data, SocketEnd], s)"
    by (simp add: clientWrite_def)
next
  assume "m_method data \<noteq> ''create'' \<and> \<not> connects C"
  then show "clientWrite C H sched data s =
      ([SocketConnect, SocketError], serverOnData C H sched data s)"
    by (simp add: clientWrite_def serverOnData_def)
next
  fix call
  assume c: "byCli C H (m_method data) = Some call"
  obtain jobs s' where st: "startAll call (names_of (m_plugins data)) s = (jobs, s')"
    by (cases "startAll call (names_of (m_plugins data)) s")
  have len: "length jobs = length (names_of (m_plugins data))"
    using startAll_length [of call "names_of (m_plugins data)" s] st by simp
  show "\<exists>jobs s'. doCliCommand C H (m_method data) (m_plugins data) s = (Promised jobs, s') \<and>
      length jobs = length (names_of (m_plugins data))"
  proof (cases "names_of (m_plugins data) = []")
    case True
    then show ?thesis by (simp add: doCliCommand_def Let_def)
  next
    case False
    then show ?thesis using c st len by (simp add: doCliCommand_def Let_def)
  qed
next
  show "doCliCommand C H ''enable'' ps s =
     (Promised (map (\<lambda>nm. fst (enable_job H nm s)) (names_of ps)), s)"
    by (simp add: doCliCommand_def Let_def byCli_def
        startAll_pure [of "enable_job H", OF enable_job_state])
next
  show "doCliCommand C H ''disable'' ps s =
     (Promised (map (\<lambda>nm. fst (disable_job H nm s)) (names_of ps)), s)"
    by (simp add: doCliCommand_def Let_def byCli_def
        startAll_pure [of "disable_job H", OF disable_job_state])
next
  show "doCliCommand C H ''remove'' ps s =
     (Promised (map (\<lambda>nm. fst (remove_job H nm s)) (names_of ps)), s)"
    by (simp add: doCliCommand_def Let_def byCli_def
        startAll_pure [of "remove_job H", OF remove_job_state])
next
  show "serverOnData C H sched \<lparr>m_method = ''enable'', m_plugins = One nm\<rparr> s =
     catchError (enable H nm (s\<lparr>trace := trace s @ [LogCommand ''enable'' (One nm)]\<rparr>))"
    by (simp add: serverOnData_def dispatch_one [of C H "''enable''" "enable_job H"] byCli_def
        run_enable_job)
next
  show "serverOnData C H sched \<lparr>m_method = ''disable'', m_plugins = One nm\<rparr> s =
     catchError (disable H nm (s\<lparr>trace := trace s @ [LogCommand ''disable'' (One nm)]\<rparr>))"
    by (simp add: serverOnData_def dispatch_one [of C H "''disable''" "disable_job H"] byCli_def
        run_disable_job)
next
  show "serverOnData C H sched \<lparr>m_method = ''remove'', m_plugins = One nm\<rparr> s =
     catchError (remove_plugin H nm (s\<lparr>trace := trace s @ [LogCommand ''remove'' (One nm)]\<rparr>))"
    by (simp add: serverOnData_def dispatch_one [of C H "''remove''" "remove_job H"] byCli_def
        run_remove_job)
qed

theorem control_channel_witness:
  "clientWrite (demoCli True) (demoHost [] []) [0, 0] demoCreateTwo (demoState [] []) =
     ([], \<lparr>plugins = [], store = [], tableExists = True,
           trace = [LogCommand ''create'' (Many [''a'', ''b'']),
                    LogText ''creating a plugin...'', LogText ''creating b plugin...'',
                    GeneratePlugin ''a'', YarnInstall, GeneratePlugin ''b'', YarnInstall]\<rparr>) \<and>
   clientWrite (demoCli True) (demoHost [] []) [0, 0] demoEnableFoo demoTwo =
     ([SocketConnect, SocketWrite demoEnableFoo, SocketEnd], demoTwo) \<and>
   clientWrite (demoCli False) (demoHost [] []) [0, 0] demoEnableFoo demoTwo =
     ([SocketConnect, SocketError],
      serverOnData (demoCli True) (demoHost [] []) [0, 0] demoEnableFoo demoTwo) \<and>
   serverOnData (demoCli True) (demoHost [] []) [0, 0] demoEnableFoo demoTwo =
     demoTwo\<lparr>store := [demoRecord ''foo'' True False],
       trace := [LogCommand ''enable'' (One ''foo''),
         DbUpdate \<lparr>f_name = ''foo'', f_appName = ''main'', f_builtIn = None\<rparr> [SetEnabled True],
         HookCall Install (demoPlugin 1 ''foo'' True),
         HookCall AfterEnable (demoPlugin 1 ''foo'' True),
         Emit (AfterEnablePlugin ''foo''), Emit (BeforeLoadPlugin (demoPlugin 1 ''foo'' True)),
         HookCall Load (demoPlugin 1 ''foo'' True),
         Emit (AfterLoadPlugin (demoPlugin 1 ''foo'' True))]\<rparr>"
proof -
  let ?H = "demoHost [] []"
  have m1: "m_method demoCreateTwo = ''create''"
    by (simp add: demoCreateTwo_def)
  have m2: "m_method demoEnableFoo \<noteq> ''create'' \<and> connects (demoCli True)"
    by (simp add: demoEnableFoo_def demoCli_def)
  have m3: "m_method demoEnableFoo \<noteq> ''create'' \<and> \<not> connects (demoCli False)"
    by (simp add: demoEnableFoo_def demoCli_def)
  have create: "dispatch (demoCli True) ?H [0, 0] ''create'' (m_plugins demoCreateTwo)
      (demoState [] []) =
      \<lparr>plugins = [], store = [], tableExists = True,
       trace = [LogCommand ''create'' (Many [''a'', ''b'']),
                LogText ''creating a plugin...'', LogText ''creating b plugin...'',
                GeneratePlugin ''a'', YarnInstall, GeneratePlugin ''b'', YarnInstall]\<rparr>"
    by (simp add: dispatch_def doCliCommand_def names_of_def byCli_def createByCli_def
        sync_def waiting_def on_turn_def note_rejection_def fulfilled_def generatorRun_def
        yarnInstall_def step_defs demoCreateTwo_def demoCli_def demoState_def Let_def)
  have same: "serverOnData (demoCli False) ?H [0, 0] demoEnableFoo demoTwo =
      serverOnData (demoCli True) ?H [0, 0] demoEnableFoo demoTwo"
    using control_channel [of demoEnableFoo "demoCli False" ?H "[0, 0]" demoTwo "One ''foo''" "''foo''"]
      control_channel [of demoEnableFoo "demoCli True" ?H "[0, 0]" demoTwo "One ''foo''" "''foo''"]
    by (simp add: demoEnableFoo_def)
  have server: "serverOnData (demoCli True) ?H [0, 0] demoEnableFoo demoTwo =
      demoTwo\<lparr>store := [demoRecord ''foo'' True False],
       trace := [LogCommand ''enable'' (One ''foo''),
         DbUpdate \<lparr>f_name = ''foo'', f_appName = ''main'', f_builtIn = None\<rparr> [SetEnabled True],
         HookCall Install (demoPlugin 1 ''foo'' True),
         HookCall AfterEnable (demoPlugin 1 ''foo'' True),
         Emit (AfterEnablePlugin ''foo''), Emit (BeforeLoadPlugin (demoPlugin 1 ''foo'' True)),
         HookCall Load (demoPlugin 1 ''foo'' True),
         Emit (AfterLoadPlugin (demoPlugin 1 ''foo'' True))]\<rparr>"
    using control_channel [of demoEnableFoo "demoCli True" ?H "[0, 0]" demoTwo "One ''foo''" "''foo''"]
    by (simp add: demoEnableFoo_def catchError_def enable_def step_defs demo_defs map_get_def
        load_def truthy_def matches_def apply_values_def demoTwo_def)
  from control_channel [of demoCreateTwo "demoCli True" ?H "[0, 0]" "demoState [] []"
      "One ''foo''" "''foo''"] m1 create
    control_channel [of demoEnableFoo "demoCli True" ?H "[0, 0]" demoTwo "One ''foo''" "''foo''"] m2
    control_channel [of demoEnableFoo "demoCli False" ?H "[0, 0]" demoTwo "One ''foo''" "''foo''"] m3
    same server
  show ?thesis by simp
qed

end
